theory Spec2Isabelle
  imports Complex_Main "HOL-Library.AList"
begin

unbundle bit_operations_syntax

section \<open>Python values\<close>

text \<open>
  Python's \<open>float\<close> fields (beats, volumes, velocities, parameter values) are modelled as
  exact rationals: a product such as \<open>position * ppq\<close> is the exact product. Python's
  \<open>int\<close> is \<open>int\<close>; a \<open>str\<close> is a \<open>string\<close> whose characters are the code points
  below 256; a byte of a \<open>bytes\<close> or \<open>bytearray\<close> value is an \<open>int\<close> in \<open>0..255\<close>.
\<close>

text \<open>\<open>int(x)\<close> on a float: truncation toward zero.\<close>

definition py_int :: "rat \<Rightarrow> int" where
  "py_int x = (if 0 \<le> x then \<lfloor>x\<rfloor> else \<lceil>x\<rceil>)"


section \<open>Errors, bytes and strings\<close>

text \<open>
  The exceptions the modelled code can raise: \<open>struct.error\<close> (a value that does not fit
  the packed field), \<open>ValueError\<close> (a \<open>bytearray\<close> item outside \<open>range(256)\<close>, a string
  that is not a number) and \<open>TypeError\<close> (a call with keyword arguments the callee does not
  take, or without one it requires). A function that can raise returns \<open>error + 'a\<close>.
\<close>

datatype error = StructError | ValueError | TypeError

definition then_do :: "error + 'a \<Rightarrow> ('a \<Rightarrow> error + 'b) \<Rightarrow> error + 'b" where
  "then_do m f = (case m of Inl e \<Rightarrow> Inl e | Inr x \<Rightarrow> f x)"

text \<open>Running a loop body over a list, stopping at the first exception.\<close>

fun for_each :: "('a \<Rightarrow> error + 'b) \<Rightarrow> 'a list \<Rightarrow> error + 'b list" where
  "for_each f [] = Inr []"
| "for_each f (x # xs) =
     then_do (f x) (\<lambda>y. then_do (for_each f xs) (\<lambda>ys. Inr (y # ys)))"

text \<open>\<open>bytearray.append(v)\<close> and \<open>buf[i] = v\<close>: the item must be in \<open>range(256)\<close>.\<close>

definition byte_of :: "int \<Rightarrow> error + int" where
  "byte_of v = (if 0 \<le> v \<and> v < 256 then Inr v else Inl ValueError)"

text \<open>\<open>struct.pack('<H', v)\<close> and \<open>struct.pack('<I', v)\<close>: little-endian, unsigned.\<close>

definition pack_H :: "int \<Rightarrow> error + int list" where
  "pack_H v = (if 0 \<le> v \<and> v < 65536 then Inr [v mod 256, v div 256] else Inl StructError)"

definition pack_I :: "int \<Rightarrow> error + int list" where
  "pack_I v =
     (if 0 \<le> v \<and> v < 4294967296
      then Inr [v mod 256, v div 256 mod 256, v div 65536 mod 256, v div 16777216]
      else Inl StructError)"

text \<open>\<open>struct.pack_into(fmt, buf, offset, v)\<close> overwrites the packed bytes in place.\<close>

definition write_at :: "int list \<Rightarrow> nat \<Rightarrow> int list \<Rightarrow> int list" where
  "write_at buf offset bs = take offset buf @ bs @ drop (offset + length bs) buf"

text \<open>What a reader of a little-endian unsigned field gets.\<close>

fun le_value :: "int list \<Rightarrow> int" where
  "le_value [] = 0"
| "le_value (b # bs) = b + 256 * le_value bs"

text \<open>A byte literal such as \<open>b'FPC '\<close>.\<close>

definition ascii :: "string \<Rightarrow> int list" where
  "ascii s = map of_char s"

text \<open>\<open>str.encode('utf-8')\<close> and \<open>str.encode('utf-16le')\<close> on code points below 256.\<close>

definition utf8_char :: "char \<Rightarrow> int list" where
  "utf8_char c =
     (let n = of_char c in if n < 128 then [n] else [192 + n div 64, 128 + n mod 64])"

definition utf8_encode :: "string \<Rightarrow> int list" where
  "utf8_encode s = concat (map utf8_char s)"

definition utf16le_encode :: "string \<Rightarrow> int list" where
  "utf16le_encode s = concat (map (\<lambda>c. [of_char c, 0]) s)"

text \<open>\<open>str(n)\<close> for an integer, as an f-string formats it.\<close>

function str_nat :: "nat \<Rightarrow> string" where
  "str_nat n =
     (if n < 10 then [char_of (48 + n)] else str_nat (n div 10) @ [char_of (48 + n mod 10)])"
  by pat_completeness auto
termination
  by (relation "measure id") auto

definition str_int :: "int \<Rightarrow> string" where
  "str_int i = (if i < 0 then CHR ''-'' # str_nat (nat (- i)) else str_nat (nat i))"

section \<open>The project model (core/transproj.py)\<close>

text \<open>
  The dataclasses, one record each; the selector of a field carries its class as a
  prefix (\<open>note_\<close>, \<open>clip_\<close>, \<open>plug_\<close>, \<open>pad_\<close>, \<open>rack_\<close>, \<open>track_\<close>, \<open>proj_\<close>).
  \<open>Optional[X]\<close> is \<open>X option\<close>, a \<open>Dict[str, Any]\<close> of parameters is an association list in
  insertion order with numeric values.
\<close>

record Note =
  note_position :: rat
  note_duration :: rat
  note_key :: int
  note_velocity :: rat

record Clip =
  clip_name :: string
  clip_start :: rat
  clip_duration :: rat
  clip_notes :: "Note list"
  clip_audio_path :: string
  clip_is_midi :: bool
  clip_scene_index :: "int option"

record Plugin =
  plug_name :: string
  plug_manufacturer :: string
  plug_is_instrument :: bool
  plug_device_type :: "string option"
  plug_vst_id :: "string option"
  plug_parameters :: "(string \<times> rat) list"

record DrumPad =
  pad_index :: int
  pad_name :: string
  pad_sample_path :: string
  pad_midi_note :: int
  pad_volume :: rat
  pad_pan :: rat

record Rack =
  rack_name :: string
  rack_type :: "string option"
  rack_plugins :: "Plugin list"
  rack_drum_pads :: "DrumPad list"

record Track =
  track_name :: string
  track_color :: "int \<times> int \<times> int"
  track_volume :: rat
  track_pan :: rat
  track_muted :: bool
  track_solo :: bool
  track_clips :: "Clip list"
  track_instrument :: "Plugin option"
  track_effects :: "Plugin list"
  track_racks :: "Rack list"

record TransProj =
  proj_name :: string
  proj_tempo :: rat
  proj_ppq :: int
  proj_tracks :: "Track list"
  proj_ableton_version :: string
  proj_is_session_view :: bool

text \<open>\<open>Note.to_ticks\<close>\<close>

definition to_ticks :: "Note \<Rightarrow> int \<Rightarrow> int \<times> int" where
  "to_ticks self ppq =
     (py_int (note_position self * of_int ppq), py_int (note_duration self * of_int ppq))"

text \<open>\<open>Clip.is_session_clip\<close>, \<open>Rack.is_drum_rack\<close>, \<open>Track.has_midi\<close>, \<open>Track.has_audio\<close>\<close>

definition is_session_clip :: "Clip \<Rightarrow> bool" where
  "is_session_clip self = (clip_scene_index self \<noteq> None)"

definition is_drum_rack :: "Rack \<Rightarrow> bool" where
  "is_drum_rack self = (length (rack_drum_pads self) > 0)"

definition has_midi :: "Track \<Rightarrow> bool" where
  "has_midi self = list_ex clip_is_midi (track_clips self)"

definition has_audio :: "Track \<Rightarrow> bool" where
  "has_audio self = list_ex (\<lambda>c. \<not> clip_is_midi c) (track_clips self)"

section \<open>The mapping layer (converters/plugin_mapper.py)\<close>

definition ABLETON_TO_FL_INSTRUMENTS :: "(string \<times> string) list" where
  "ABLETON_TO_FL_INSTRUMENTS =
     [(''OriginalSimpler'', ''Sampler''),
      (''MultiSampler'', ''DirectWave''),
      (''Operator'', ''3xOsc''),
      (''Analog'', ''Sytrus''),
      (''Electric'', ''3xOsc''),
      (''Collision'', ''FPC''),
      (''Tension'', ''Sytrus''),
      (''Wavetable'', ''Harmor''),
      (''DrumSynth'', ''FPC''),
      (''InstrumentGroupDevice'', ''Patcher'')]"

definition ABLETON_TO_FL_EFFECTS :: "(string \<times> string) list" where
  "ABLETON_TO_FL_EFFECTS =
     [(''AutoFilter'', ''Fruity Love Philter''),
      (''AutoPan'', ''Fruity Stereo Enhancer''),
      (''BeatRepeat'', ''Fruity Slicer''),
      (''Cabinet'', ''Fruity Guitar Amp''),
      (''Chorus'', ''Fruity Chorus''),
      (''Compressor'', ''Fruity Compressor''),
      (''Delay'', ''Fruity Delay 3''),
      (''Distortion'', ''Fruity Fast Dist''),
      (''Echo'', ''Fruity Delay 3''),
      (''Eq8'', ''Fruity Parametric EQ 2''),
      (''EQ Eight'', ''Fruity Parametric EQ 2''),
      (''Erosion'', ''Fruity Bitcrusher''),
      (''FilterDelay'', ''Fruity Delay 3''),
      (''Flanger'', ''Fruity Flanger''),
      (''GlueCompressor'', ''Fruity Limiter''),
      (''Glue Compressor'', ''Fruity Limiter''),
      (''GrainDelay'', ''Fruity Granulizer''),
      (''Limiter'', ''Fruity Limiter''),
      (''Looper'', ''Fruity Slicer''),
      (''Overdrive'', ''Fruity Fast Dist''),
      (''Phaser'', ''Fruity Phaser''),
      (''PingPongDelay'', ''Fruity Delay 3''),
      (''Redux'', ''Fruity Bitcrusher''),
      (''Reverb'', ''Fruity Reeverb 2''),
      (''Saturator'', ''Fruity Waveshaper''),
      (''SimpleDelay'', ''Fruity Delay 3''),
      (''Utility'', ''Fruity Balance''),
      (''Vocoder'', ''Vocodex''),
      (''DrumBuss'', ''Maximus''),
      (''Drum Buss'', ''Maximus''),
      (''Roar'', ''Distructor''),
      (''AudioEffectGroupDevice'', ''Patcher'')]"

definition ABLETON_TO_FL_DRUMS :: "(string \<times> string) list" where
  "ABLETON_TO_FL_DRUMS =
     [(''DrumGroupDevice'', ''FPC''),
      (''DrumSynth'', ''FPC'')]"

text \<open>
  \<open>PARAMETER_MAPPINGS\<close>. The source's dict literal gives the key \<open>DecayTime\<close> twice
  (\<open>DEC\<close>, then \<open>Decay\<close>); Python keeps the later value, so the entry here is \<open>Decay\<close>.
\<close>

definition PARAMETER_MAPPINGS :: "(string \<times> string) list" where
  "PARAMETER_MAPPINGS =
     [(''Volume'', ''Volume''), (''Level'', ''Level''), (''Gain'', ''Gain''),
      (''Output'', ''Out''),
      (''FilterFreq'', ''CutOff''), (''Frequency'', ''Frequency''), (''Cutoff'', ''Cutoff''),
      (''FilterRes'', ''Resonance''), (''Resonance'', ''Resonance''), (''FilterType'', ''Type''),
      (''Attack'', ''ATT''), (''AttackTime'', ''ATT''), (''Decay'', ''DEC''),
      (''DecayTime'', ''Decay''), (''Sustain'', ''SUS''), (''SustainLevel'', ''SUS''),
      (''Release'', ''REL''), (''ReleaseTime'', ''REL''),
      (''LfoRate'', ''Speed''), (''LfoAmount'', ''Depth''), (''LfoWaveform'', ''Shape''),
      (''DryWet'', ''Mix''), (''Mix'', ''Mix''), (''Blend'', ''Mix''),
      (''Feedback'', ''Feedback''), (''FeedbackAmount'', ''Feedback''), (''Rate'', ''Rate''),
      (''Speed'', ''Speed''), (''Depth'', ''Depth''), (''Amount'', ''Amount''),
      (''Intensity'', ''Mod''),
      (''DelayTime'', ''Time''), (''Time'', ''Time''), (''DelayFeedback'', ''Feedback''),
      (''Sync'', ''Sync''),
      (''RoomSize'', ''Size''), (''Size'', ''Size''), (''Damping'', ''Damp''),
      (''HighDamp'', ''Damp''), (''PreDelay'', ''PreDelay''),
      (''Threshold'', ''Threshold''), (''Ratio'', ''Ratio''), (''Knee'', ''Knee''),
      (''MakeupGain'', ''Gain''),
      (''Freq'', ''Freq''), (''Q'', ''Q''), (''BandGain'', ''Gain''),
      (''Drive'', ''Drive''), (''Bias'', ''Bias''), (''Shape'', ''Shape'')]"

definition PARAMETER_RANGES :: "(string \<times> ((rat \<times> rat) \<times> (rat \<times> rat))) list" where
  "PARAMETER_RANGES =
     [(''Volume'', ((0, 1), (0, 100))),
      (''Pan'', ((-1, 1), (0, 100))),
      (''FilterFreq'', ((20, 20000), (0, 100))),
      (''Resonance'', ((0, 1), (0, 100))),
      (''DryWet'', ((0, 1), (0, 100))),
      (''Attack'', ((0, 5), (0, 100))),
      (''Decay'', ((0, 5), (0, 100))),
      (''Sustain'', ((0, 1), (0, 100))),
      (''Release'', ((0, 5), (0, 100)))]"

text \<open>
  \<open>device_type or ableton_name\<close>: the device type when it is given and not the empty
  string, the name otherwise.
\<close>

definition lookup_name_of :: "string \<Rightarrow> string option \<Rightarrow> string" where
  "lookup_name_of ableton_name device_type =
     (case device_type of
        None \<Rightarrow> ableton_name
      | Some d \<Rightarrow> if d = [] then ableton_name else d)"

text \<open>\<open>PluginMapper.ableton_to_fl\<close>\<close>

definition ableton_to_fl :: "string \<Rightarrow> bool \<Rightarrow> string option \<Rightarrow> string" where
  "ableton_to_fl ableton_name is_instrument device_type =
     (let lookup_name = lookup_name_of ableton_name device_type
      in case map_of ABLETON_TO_FL_DRUMS lookup_name of
           Some fl \<Rightarrow> fl
         | None \<Rightarrow>
             if is_instrument
             then (case map_of ABLETON_TO_FL_INSTRUMENTS lookup_name of
                     Some fl \<Rightarrow> fl | None \<Rightarrow> ''Sampler'')
             else (case map_of ABLETON_TO_FL_EFFECTS lookup_name of
                     Some fl \<Rightarrow> fl | None \<Rightarrow> ableton_name))"

text \<open>\<open>PluginMapper.map_parameter_name\<close>\<close>

definition map_parameter_name :: "string \<Rightarrow> string" where
  "map_parameter_name param_name =
     (case map_of PARAMETER_MAPPINGS param_name of Some n \<Rightarrow> n | None \<Rightarrow> param_name)"

text \<open>\<open>PluginMapper.map_parameter_value\<close>\<close>

definition map_parameter_value :: "string \<Rightarrow> rat \<Rightarrow> rat" where
  "map_parameter_value param_name ableton_value =
     (case map_of PARAMETER_RANGES param_name of
        None \<Rightarrow> ableton_value
      | Some ((able_min, able_max), (fl_min, fl_max)) \<Rightarrow>
          (let normalized = (ableton_value - able_min) / (able_max - able_min)
           in fl_min + normalized * (fl_max - fl_min)))"

section \<open>The plugin state encoder (converters/plugin_state_generator.py)\<close>

text \<open>
  The dicts the encoders read with \<open>d.get(key, default)\<close>: a field is \<open>None\<close> when the key is
  absent.
\<close>

record pad_dict =
  pd_sample_path :: "string option"
  pd_volume :: "rat option"
  pd_pan :: "rat option"
  pd_tune :: "rat option"

record band_dict =
  bd_freq :: "rat option"
  bd_gain :: "rat option"
  bd_q :: "rat option"
  bd_type :: "int option"

definition get_or :: "'a option \<Rightarrow> 'a \<Rightarrow> 'a" where
  "get_or v dflt = (case v of None \<Rightarrow> dflt | Some x \<Rightarrow> x)"

text \<open>\<open>data.append(int(x * 100))\<close>\<close>

definition percent_byte :: "rat \<Rightarrow> error + int" where
  "percent_byte x = byte_of (py_int (x * 100))"

text \<open>\<open>PluginStateGenerator.generate_sampler_state\<close>\<close>

definition generate_sampler_state :: "string \<Rightarrow> rat \<Rightarrow> rat \<Rightarrow> error + int list" where
  "generate_sampler_state sample_path volume pan =
     then_do (pack_I 1) (\<lambda>version.
     then_do (if sample_path \<noteq> []
              then (let path_bytes = utf8_encode sample_path
                    in then_do (pack_I (int (length path_bytes))) (\<lambda>n. Inr (n @ path_bytes)))
              else pack_I 0) (\<lambda>path.
     then_do (percent_byte volume) (\<lambda>v.
     then_do (percent_byte pan) (\<lambda>p.
     Inr (ascii ''SMPL'' @ version @ path @ [v, p])))))"

text \<open>\<open>PluginStateGenerator.generate_3xosc_state\<close>\<close>

definition generate_3xosc_state :: "rat \<Rightarrow> int \<Rightarrow> rat \<Rightarrow> rat \<Rightarrow> error + int list" where
  "generate_3xosc_state osc1_vol osc1_wave osc2_vol osc3_vol =
     then_do (pack_I 1) (\<lambda>version.
     then_do (byte_of osc1_wave) (\<lambda>w1.
     then_do (percent_byte osc1_vol) (\<lambda>v1.
     then_do (percent_byte osc2_vol) (\<lambda>v2.
     then_do (percent_byte osc3_vol) (\<lambda>v3.
     Inr (ascii ''3OSC'' @ version
          @ [1, w1, v1, 64]
          @ [if osc2_vol > 0 then 1 else 0, 0, v2, 64]
          @ [if osc3_vol > 0 then 1 else 0, 0, v3, 64]))))))"

text \<open>
  \<open>PluginStateGenerator.generate_fpc_state\<close>. \<open>fpc_pad_record pads i\<close> is what iteration \<open>i\<close>
  of the loop over \<open>range(16)\<close> appends.
\<close>

definition fpc_pad_record :: "pad_dict list \<Rightarrow> nat \<Rightarrow> error + int list" where
  "fpc_pad_record pads i =
     (if i < length pads
      then (let pad = pads ! i; sample_path = get_or (pd_sample_path pad) []
            in then_do (if sample_path \<noteq> []
                        then (let path_bytes = utf8_encode sample_path
                              in then_do (pack_H (int (length path_bytes)))
                                   (\<lambda>n. Inr (n @ path_bytes)))
                        else pack_H 0) (\<lambda>path.
               then_do (percent_byte (get_or (pd_volume pad) 1)) (\<lambda>v.
               then_do (percent_byte (get_or (pd_pan pad) (1 / 2))) (\<lambda>p.
               then_do (percent_byte (get_or (pd_tune pad) (1 / 2))) (\<lambda>t.
               Inr ([1] @ path @ [v, p, t]))))))
      else then_do (pack_H 0) (\<lambda>path. Inr ([0] @ path @ [100, 100, 100])))"

definition generate_fpc_state :: "pad_dict list \<Rightarrow> error + int list" where
  "generate_fpc_state pads =
     then_do (pack_I 1) (\<lambda>version.
     then_do (pack_I (int (min (length pads) 16))) (\<lambda>pad_count.
     then_do (for_each (fpc_pad_record pads) [0..<16]) (\<lambda>records.
     Inr (ascii ''FPC '' @ version @ pad_count @ concat records))))"

text \<open>\<open>PluginStateGenerator.generate_fruity_compressor_state\<close>\<close>

definition generate_fruity_compressor_state ::
  "rat \<Rightarrow> rat \<Rightarrow> rat \<Rightarrow> rat \<Rightarrow> error + int list" where
  "generate_fruity_compressor_state threshold ratio attack release =
     then_do (pack_I 1) (\<lambda>version.
     then_do (percent_byte threshold) (\<lambda>t.
     then_do (percent_byte ratio) (\<lambda>r.
     then_do (percent_byte attack) (\<lambda>a.
     then_do (percent_byte release) (\<lambda>l.
     Inr (ascii ''COMP'' @ version @ [t, r, a, l, 50, 0]))))))"

text \<open>\<open>PluginStateGenerator.generate_fruity_delay_state\<close>\<close>

definition generate_fruity_delay_state :: "rat \<Rightarrow> rat \<Rightarrow> rat \<Rightarrow> error + int list" where
  "generate_fruity_delay_state time feedback mix =
     then_do (pack_I 1) (\<lambda>version.
     then_do (percent_byte time) (\<lambda>t.
     then_do (percent_byte feedback) (\<lambda>f.
     then_do (percent_byte mix) (\<lambda>m.
     Inr (ascii ''DLY3'' @ version @ [t, f, m, 0, 0])))))"

text \<open>\<open>PluginStateGenerator.generate_fruity_reverb_state\<close>\<close>

definition generate_fruity_reverb_state :: "rat \<Rightarrow> rat \<Rightarrow> rat \<Rightarrow> error + int list" where
  "generate_fruity_reverb_state room_size decay mix =
     then_do (pack_I 1) (\<lambda>version.
     then_do (percent_byte room_size) (\<lambda>s.
     then_do (percent_byte decay) (\<lambda>d.
     then_do (percent_byte mix) (\<lambda>m.
     Inr (ascii ''REV2'' @ version @ [s, d, m, 50, 0])))))"

text \<open>
  \<open>PluginStateGenerator.generate_fruity_eq_state\<close>. \<open>eq_band_record bands i\<close> is what
  iteration \<open>i\<close> of the loop over \<open>range(7)\<close> appends.
\<close>

definition eq_band_record :: "band_dict list \<Rightarrow> nat \<Rightarrow> error + int list" where
  "eq_band_record bands i =
     (if i < length bands
      then (let band = bands ! i
            in then_do (percent_byte (get_or (bd_freq band) (1 / 2))) (\<lambda>f.
               then_do (percent_byte (get_or (bd_gain band) (1 / 2))) (\<lambda>g.
               then_do (percent_byte (get_or (bd_q band) (1 / 2))) (\<lambda>q.
               then_do (byte_of (get_or (bd_type band) 0)) (\<lambda>t.
               Inr [1, f, g, q, t])))))
      else Inr [0, 50, 50, 50, 0])"

definition generate_fruity_eq_state :: "band_dict list \<Rightarrow> error + int list" where
  "generate_fruity_eq_state bands =
     then_do (pack_I 1) (\<lambda>version.
     then_do (pack_I (int (min (length bands) 7))) (\<lambda>band_count.
     then_do (for_each (eq_band_record bands) [0..<7]) (\<lambda>records.
     Inr (ascii ''PEQ2'' @ version @ band_count @ concat records))))"

text \<open>
  \<open>PluginStateGenerator.generate_generic_state\<close>. The four bytes of
  \<open>struct.pack('<f', value)\<close> are the parameter \<open>pack_f\<close> (an IEEE single, or an exception
  when the value does not fit one).
\<close>

definition generic_param :: "(rat \<Rightarrow> error + int list) \<Rightarrow> string \<times> rat \<Rightarrow> error + int list" where
  "generic_param pack_f p =
     (let param_bytes = utf8_encode (fst p)
      in then_do (pack_H (int (length param_bytes))) (\<lambda>n.
         then_do (pack_f (snd p)) (\<lambda>v.
         Inr (n @ param_bytes @ v))))"

definition generate_generic_state ::
  "(rat \<Rightarrow> error + int list) \<Rightarrow> string \<Rightarrow> (string \<times> rat) list \<Rightarrow> error + int list" where
  "generate_generic_state pack_f plugin_name params =
     then_do (pack_I 1) (\<lambda>version.
     (let name_bytes = utf8_encode plugin_name
      in then_do (pack_H (int (length name_bytes))) (\<lambda>name_len.
         then_do (pack_I (int (length params))) (\<lambda>count.
         then_do (for_each (generic_param pack_f) params) (\<lambda>ps.
         Inr (ascii ''PLGN'' @ version @ name_len @ name_bytes @ count @ concat ps))))))"

text \<open>
  The keyword arguments of \<open>PluginStateFactory.generate(plugin_name, **kwargs)\<close>: the keywords
  the writer passes and the two list arguments the encoders require (\<open>pads\<close>, \<open>bands\<close>), each
  \<open>None\<close> when it is not passed.
\<close>

record kwargs =
  kw_sample_path :: "string option"
  kw_volume :: "rat option"
  kw_pan :: "rat option"
  kw_params :: "(string \<times> rat) list option"
  kw_pads :: "pad_dict list option"
  kw_bands :: "band_dict list option"

definition no_kwargs :: kwargs where
  "no_kwargs =
     \<lparr>kw_sample_path = None, kw_volume = None, kw_pan = None, kw_params = None,
      kw_pads = None, kw_bands = None\<rparr>"

text \<open>
  \<open>PluginStateFactory.generate\<close>: the \<open>GENERATORS\<close> table, then the \<open>EFFECTS\<close> table, then
  the generic encoder. \<open>f(**kwargs)\<close> raises \<open>TypeError\<close> on a keyword \<open>f\<close> does not take and
  on a missing required argument; an argument that is not passed takes its default.
\<close>

definition generate ::
  "(rat \<Rightarrow> error + int list) \<Rightarrow> string \<Rightarrow> kwargs \<Rightarrow> error + int list" where
  "generate pack_f plugin_name kw =
     (if plugin_name = ''Sampler'' then
        (if kw_params kw \<noteq> None \<or> kw_pads kw \<noteq> None \<or> kw_bands kw \<noteq> None
         then Inl TypeError
         else generate_sampler_state (get_or (kw_sample_path kw) [])
                (get_or (kw_volume kw) 1) (get_or (kw_pan kw) (1 / 2)))
      else if plugin_name = ''3xOsc'' then
        (if kw \<noteq> no_kwargs then Inl TypeError else generate_3xosc_state 1 0 0 0)
      else if plugin_name = ''FPC'' then
        (if kw\<lparr>kw_pads := None\<rparr> \<noteq> no_kwargs then Inl TypeError
         else case kw_pads kw of None \<Rightarrow> Inl TypeError | Some pads \<Rightarrow> generate_fpc_state pads)
      else if plugin_name = ''Fruity Compressor'' then
        (if kw \<noteq> no_kwargs then Inl TypeError
         else generate_fruity_compressor_state (1 / 2) (3 / 10) (1 / 10) (3 / 10))
      else if plugin_name = ''Fruity Delay 3'' then
        (if kw \<noteq> no_kwargs then Inl TypeError
         else generate_fruity_delay_state (1 / 4) (1 / 2) (1 / 2))
      else if plugin_name = ''Fruity Reeverb 2'' then
        (if kw \<noteq> no_kwargs then Inl TypeError
         else generate_fruity_reverb_state (1 / 2) (1 / 2) (3 / 10))
      else if plugin_name = ''Fruity Parametric EQ 2'' then
        (if kw\<lparr>kw_bands := None\<rparr> \<noteq> no_kwargs then Inl TypeError
         else case kw_bands kw of None \<Rightarrow> Inl TypeError
              | Some bands \<Rightarrow> generate_fruity_eq_state bands)
      else generate_generic_state pack_f plugin_name (get_or (kw_params kw) []))"

section \<open>The target writer (writers/flstudio_writer.py)\<close>

text \<open>
  The writer appends tagged events to one buffer: an identifying byte, then either a
  payload of fixed width, or a variable-length integer giving the payload's length and
  the payload. Each such append is an \<open>event\<close> here, and the bytes of the buffer are the
  concatenation of the events' encodings (\<open>encode_event\<close>).
\<close>

datatype event = Fixed int "int list" | Var int "int list"

fun event_id :: "event \<Rightarrow> int" where
  "event_id (Fixed i bs) = i"
| "event_id (Var i bs) = i"

fun event_payload :: "event \<Rightarrow> int list" where
  "event_payload (Fixed i bs) = bs"
| "event_payload (Var i bs) = bs"

text \<open>\<open>FLStudioWriter._write_varint\<close>, on a length.\<close>

function write_varint :: "nat \<Rightarrow> int list" where
  "write_varint v =
     (let byte = v AND 127; v' = drop_bit 7 v
      in if v' \<noteq> 0 then int (byte OR 128) # write_varint v' else [int byte])"
  by pat_completeness auto
termination
  by (relation "measure id") (auto simp: drop_bit_eq_div)

fun encode_event :: "event \<Rightarrow> int list" where
  "encode_event (Fixed i bs) = i # bs"
| "encode_event (Var i bs) = i # write_varint (length bs) @ bs"

text \<open>
  \<open>FLStudioWriter._write_string\<close> and \<open>_write_utf16le_string\<close> (with its terminating null):
  the payload of the variable-length event they complete.
\<close>

definition string_payload :: "string \<Rightarrow> int list" where
  "string_payload text = utf8_encode text"

definition utf16le_payload :: "string \<Rightarrow> int list" where
  "utf16le_payload text = utf16le_encode text @ [0, 0]"

text \<open>\<open>FLStudioWriter._map_plugin_params\<close>; assigning to a dict key keeps the key's place.\<close>

definition map_plugin_params :: "Plugin \<Rightarrow> (string \<times> rat) list" where
  "map_plugin_params plugin =
     (if plug_parameters plugin = [] then [(''volume'', 100)]
      else foldl (\<lambda>mapped (name, v).
             AList.update (map_parameter_name name) (map_parameter_value name v) mapped)
           [] (plug_parameters plugin))"

text \<open>\<open>next((c for c in track.clips if not c.is_midi and c.audio_path), None)\<close>\<close>

definition first_audio_clip :: "Track \<Rightarrow> Clip option" where
  "first_audio_clip track =
     find (\<lambda>c. \<not> clip_is_midi c \<and> clip_audio_path c \<noteq> []) (track_clips track)"

definition sampler_kwargs :: "Track \<Rightarrow> Clip \<Rightarrow> kwargs" where
  "sampler_kwargs track audio_clip =
     no_kwargs\<lparr>kw_sample_path := Some (clip_audio_path audio_clip),
               kw_volume := Some (track_volume track),
               kw_pan := Some ((track_pan track + 1) / 2)\<rparr>"

text \<open>\<open>FLStudioWriter._generate_plugin_state\<close>\<close>

definition generate_plugin_state ::
  "(rat \<Rightarrow> error + int list) \<Rightarrow> string \<Rightarrow> Track \<Rightarrow> (string \<times> rat) list \<Rightarrow> error + int list"
  where
  "generate_plugin_state pack_f fl_plugin_name track params =
     (let generic = generate pack_f fl_plugin_name
            (no_kwargs\<lparr>kw_params := Some (if params \<noteq> [] then params
               else [(''volume'', track_volume track), (''pan'', track_pan track)])\<rparr>)
      in if fl_plugin_name = ''Sampler'' then
           (case first_audio_clip track of
              Some audio_clip \<Rightarrow> generate pack_f ''Sampler'' (sampler_kwargs track audio_clip)
            | None \<Rightarrow> generic)
         else if fl_plugin_name = ''3xOsc'' then generate pack_f ''3xOsc'' no_kwargs
         else if fl_plugin_name = ''Sytrus'' then
           generate pack_f ''Sytrus''
             (no_kwargs\<lparr>kw_params := Some [(''volume'', track_volume track)]\<rparr>)
         else generic)"

text \<open>\<open>FLStudioWriter._generate_drum_rack_state\<close>\<close>

definition generate_drum_rack_state ::
  "(rat \<Rightarrow> error + int list) \<Rightarrow> Rack \<Rightarrow> error + int list" where
  "generate_drum_rack_state pack_f rack =
     (let pads = map (\<lambda>pad. \<lparr>pd_sample_path = Some (pad_sample_path pad),
                            pd_volume = Some (pad_volume pad),
                            pd_pan = Some (pad_pan pad),
                            pd_tune = Some (1 / 2)\<rparr>)
                   (take 16 (rack_drum_pads rack))
      in generate pack_f ''FPC'' (no_kwargs\<lparr>kw_pads := Some pads\<rparr>))"

text \<open>
  \<open>FLStudioWriter._normalize_track_plugins\<close>: it assigns to the track's instrument and
  extends the track's effect list in place; the model returns the track after the call
  (every track owns its lists: no two tracks share one). \<open>normalize_racks\<close> is its loop
  over \<open>track.racks\<close>.
\<close>

fun normalize_racks :: "Track \<Rightarrow> Rack list \<Rightarrow> Track" where
  "normalize_racks track [] = track"
| "normalize_racks track (rack # rest) =
     (if is_drum_rack rack then normalize_racks track rest
      else if rack_type rack = Some ''InstrumentGroupDevice'' \<and> rack_plugins rack \<noteq> []
      then track\<lparr>track_instrument := Some (hd (rack_plugins rack)),
                 track_effects :=
                   (if length (rack_plugins rack) > 1
                    then track_effects track @ tl (rack_plugins rack)
                    else track_effects track)\<rparr>
      else normalize_racks track rest)"

definition normalize_track_plugins :: "Track \<Rightarrow> Track" where
  "normalize_track_plugins track =
     (if track_instrument track \<noteq> None then track
      else normalize_racks track (track_racks track))"

text \<open>
  The guard every branch of \<open>_write_channel\<close> puts before its plugin-state event:
  \<open>if plugin_state and len(plugin_state) > 0\<close>.
\<close>

definition plugin_state_event :: "int list \<Rightarrow> event list" where
  "plugin_state_event plugin_state =
     (if plugin_state \<noteq> [] \<and> length plugin_state > 0 then [Var 205 plugin_state] else [])"

text \<open>
  \<open>FLStudioWriter._write_channel\<close>. \<open>channel_plugin_state\<close> is its \<open>if\<close>/\<open>elif\<close> chain: the
  instrument, else the first drum rack of a track that has racks, else the first audio
  clip with a path of a track that has audio, else the default for a track that has MIDI
  (in that last branch \<open>plugin_state_written\<close> is still \<open>False\<close>).
\<close>

definition channel_plugin_state ::
  "(rat \<Rightarrow> error + int list) \<Rightarrow> Track \<Rightarrow> error + event list" where
  "channel_plugin_state pack_f track =
     (case track_instrument track of
        Some inst \<Rightarrow>
          (let fl_plugin = ableton_to_fl (plug_name inst) True (plug_device_type inst);
               plugin_params = map_plugin_params inst
           in then_do (generate_plugin_state pack_f fl_plugin track plugin_params)
                (\<lambda>plugin_state. Inr (plugin_state_event plugin_state)))
      | None \<Rightarrow>
          if track_racks track \<noteq> [] then
            (case find is_drum_rack (track_racks track) of
               Some rack \<Rightarrow>
                 then_do (generate_drum_rack_state pack_f rack)
                   (\<lambda>plugin_state. Inr (plugin_state_event plugin_state))
             | None \<Rightarrow> Inr [])
          else if has_audio track then
            (case first_audio_clip track of
               Some audio_clip \<Rightarrow>
                 then_do (generate pack_f ''Sampler'' (sampler_kwargs track audio_clip))
                   (\<lambda>plugin_state. Inr (plugin_state_event plugin_state))
             | None \<Rightarrow> Inr [])
          else if has_midi track \<and> \<not> False then
            then_do (generate pack_f ''3xOsc'' no_kwargs)
              (\<lambda>plugin_state. Inr (plugin_state_event plugin_state))
          else Inr [])"

definition write_channel ::
  "(rat \<Rightarrow> error + int list) \<Rightarrow> int \<Rightarrow> Track \<Rightarrow> error + event list" where
  "write_channel pack_f idx track =
     then_do (pack_H idx) (\<lambda>idx_bytes.
     (let name_bytes = utf16le_encode (track_name track) @ [0, 0];
          vol = min 128 (max 0 (py_int (track_volume track * 100)));
          pan = min 128 (max 0 (py_int ((track_pan track + 1) * 64)))
      in then_do (byte_of vol) (\<lambda>vol_byte.
         then_do (byte_of pan) (\<lambda>pan_byte.
         then_do (channel_plugin_state pack_f track) (\<lambda>plugin_events.
         Inr ([Fixed 64 idx_bytes, Var 203 name_bytes, Fixed 33 [vol_byte],
               Fixed 34 [pan_byte]] @ plugin_events))))))"

text \<open>\<open>FLStudioWriter._write_pattern\<close>; \<open>note_record\<close> is the body of its loop over the notes.\<close>

definition note_record :: "int \<Rightarrow> int \<Rightarrow> Note \<Rightarrow> error + int list" where
  "note_record ppq track_idx note =
     (let (pos_ticks, dur_ticks) = to_ticks note ppq;
          note_bytes = replicate 24 0
      in then_do (pack_I pos_ticks) (\<lambda>b. let note_bytes = write_at note_bytes 0 b in
         then_do (pack_H 0) (\<lambda>b. let note_bytes = write_at note_bytes 4 b in
         then_do (pack_H track_idx) (\<lambda>b. let note_bytes = write_at note_bytes 6 b in
         then_do (pack_I dur_ticks) (\<lambda>b. let note_bytes = write_at note_bytes 8 b in
         then_do (byte_of (note_key note)) (\<lambda>k. let note_bytes = note_bytes[12 := k] in
         then_do (byte_of 64) (\<lambda>c. let note_bytes = note_bytes[16 := c] in
         then_do (byte_of (py_int (note_velocity note * 127))) (\<lambda>v.
         Inr (note_bytes[17 := v])))))))))"

definition pattern_name_of :: "string \<Rightarrow> Clip \<Rightarrow> string" where
  "pattern_name_of trk_name clip =
     (case clip_scene_index clip of
        Some scene_index \<Rightarrow> trk_name @ '' - Scene '' @ str_int (scene_index + 1)
      | None \<Rightarrow> trk_name @ '' - '' @ clip_name clip)"

definition write_pattern :: "int \<Rightarrow> int \<Rightarrow> int \<Rightarrow> string \<Rightarrow> Clip \<Rightarrow> error + event list" where
  "write_pattern ppq pattern_idx track_idx trk_name clip =
     then_do (pack_H (pattern_idx + 1)) (\<lambda>idx_bytes.
     then_do (for_each (note_record ppq track_idx) (clip_notes clip)) (\<lambda>records.
     (let note_data = concat records
      in Inr ([Fixed 65 idx_bytes, Var 193 (utf16le_payload (pattern_name_of trk_name clip))]
              @ (if note_data \<noteq> [] then [Var 203 note_data] else [])))))"

text \<open>The dict appended to \<open>playlist_items\<close>, and \<open>FLStudioWriter._write_playlist\<close>.\<close>

record playlist_item =
  pl_pattern_id :: int
  pl_position :: int
  pl_length :: int
  pl_track_idx :: int

definition playlist_row :: "playlist_item \<Rightarrow> error + int list" where
  "playlist_row item =
     then_do (pack_I (pl_position item)) (\<lambda>a.
     then_do (pack_I (max 1 (pl_length item))) (\<lambda>b.
     then_do (pack_I (pl_pattern_id item)) (\<lambda>c.
     then_do (pack_I (pl_track_idx item)) (\<lambda>d.
     then_do (pack_I 0) (\<lambda>e.
     Inr (a @ b @ c @ d @ e))))))"

definition write_playlist :: "playlist_item list \<Rightarrow> error + event list" where
  "write_playlist playlist_items =
     (if playlist_items = [] then Inr []
      else then_do (for_each playlist_row playlist_items) (\<lambda>rows.
           Inr [Var 224 (concat rows)]))"

text \<open>
  \<open>FLStudioWriter._build_flp_binary\<close>. Its loops: over the tracks for the channels
  (\<open>channels_loop\<close>, which normalizes each track in place before writing it and so also
  returns the tracks as they are afterwards, up to the track that raised), and over the
  tracks and their clips for the patterns (\<open>tracks_loop\<close>, \<open>clips_loop\<close>, which thread
  \<open>pattern_count\<close>).
\<close>

fun channels_loop ::
  "(rat \<Rightarrow> error + int list) \<Rightarrow> int \<Rightarrow> Track list \<Rightarrow> (error + event list list) \<times> Track list"
  where
  "channels_loop pack_f idx [] = (Inr [], [])"
| "channels_loop pack_f idx (track # rest) =
     (let track' = normalize_track_plugins track
      in case write_channel pack_f idx track' of
           Inl e \<Rightarrow> (Inl e, track' # rest)
         | Inr chan \<Rightarrow>
             (let (r, rest') = channels_loop pack_f (idx + 1) rest
              in (then_do r (\<lambda>chans. Inr (chan # chans)), track' # rest')))"

fun clips_loop ::
  "int \<Rightarrow> int \<Rightarrow> string \<Rightarrow> Clip list \<Rightarrow> int
   \<Rightarrow> error + (event list list \<times> playlist_item list \<times> int)" where
  "clips_loop ppq track_idx trk_name [] pattern_count = Inr ([], [], pattern_count)"
| "clips_loop ppq track_idx trk_name (clip # rest) pattern_count =
     (if \<not> clip_is_midi clip then clips_loop ppq track_idx trk_name rest pattern_count
      else then_do (write_pattern ppq pattern_count track_idx trk_name clip) (\<lambda>pat.
           (let item = \<lparr>pl_pattern_id = pattern_count + 1,
                        pl_position = py_int (clip_start clip * of_int ppq),
                        pl_length = py_int (clip_duration clip * of_int ppq),
                        pl_track_idx = track_idx\<rparr>
            in then_do (clips_loop ppq track_idx trk_name rest (pattern_count + 1))
                 (\<lambda>(pats, items, n). Inr (pat # pats, item # items, n)))))"

fun tracks_loop ::
  "int \<Rightarrow> int \<Rightarrow> Track list \<Rightarrow> int
   \<Rightarrow> error + (event list list \<times> playlist_item list \<times> int)" where
  "tracks_loop ppq track_idx [] pattern_count = Inr ([], [], pattern_count)"
| "tracks_loop ppq track_idx (track # rest) pattern_count =
     then_do (clips_loop ppq track_idx (track_name track) (track_clips track) pattern_count)
       (\<lambda>(pats, items, n).
     then_do (tracks_loop ppq (track_idx + 1) rest n)
       (\<lambda>(pats', items', n'). Inr (pats @ pats', items @ items', n')))"

text \<open>
  What \<open>_build_flp_binary\<close> has written when it reaches its last lines: the header bytes,
  the global events, one record of events per channel, one per pattern, and the playlist
  event if there is one.
\<close>

record flp_stream =
  header_bytes :: "int list"
  global_events :: "event list"
  channel_records :: "event list list"
  pattern_records :: "event list list"
  playlist_events :: "event list"

definition all_events :: "flp_stream \<Rightarrow> event list" where
  "all_events st =
     global_events st @ concat (channel_records st) @ concat (pattern_records st)
     @ playlist_events st"

definition flp_head :: "int \<Rightarrow> TransProj \<Rightarrow> error + (int list \<times> event list)" where
  "flp_head ppq transproj =
     then_do (pack_I 6) (\<lambda>header_size.
     then_do (pack_H 0) (\<lambda>format.
     then_do (pack_H (int (length (proj_tracks transproj)))) (\<lambda>channels.
     then_do (pack_H ppq) (\<lambda>ppq_bytes.
     then_do (pack_I 12345) (\<lambda>project_id.
     then_do (pack_H (py_int (proj_tempo transproj))) (\<lambda>tempo_bytes.
     Inr (ascii ''FLhd'' @ header_size @ format @ channels @ ppq_bytes,
          [Var 199 (string_payload ''21.0.3''), Fixed 156 project_id, Fixed 66 tempo_bytes]
          @ (if proj_name transproj \<noteq> [] then [Var 206 (utf16le_payload (proj_name transproj))]
             else []))))))))"

definition build_flp_stream ::
  "(rat \<Rightarrow> error + int list) \<Rightarrow> int \<Rightarrow> TransProj \<Rightarrow> (error + flp_stream) \<times> TransProj" where
  "build_flp_stream pack_f ppq transproj =
     (case flp_head ppq transproj of
        Inl e \<Rightarrow> (Inl e, transproj)
      | Inr (header, globals) \<Rightarrow>
          (let (chans, tracks') = channels_loop pack_f 0 (proj_tracks transproj);
               transproj' = transproj\<lparr>proj_tracks := tracks'\<rparr>
           in (then_do chans (\<lambda>channels.
               then_do (tracks_loop ppq 0 (proj_tracks transproj') 0) (\<lambda>(patterns, items, n).
               then_do (write_playlist items) (\<lambda>playlist.
               Inr \<lparr>header_bytes = header, global_events = globals,
                    channel_records = channels, pattern_records = patterns,
                    playlist_events = playlist\<rparr>))),
               transproj')))"

text \<open>The bytes: the header, the data block's tag, its back-patched size, the events.\<close>

definition stream_bytes :: "flp_stream \<Rightarrow> error + int list" where
  "stream_bytes st =
     (let body = concat (map encode_event (all_events st))
      in then_do (pack_I (int (length body))) (\<lambda>data_size.
         Inr (header_bytes st @ ascii ''FLdt'' @ data_size @ body)))"

definition build_flp_binary ::
  "(rat \<Rightarrow> error + int list) \<Rightarrow> int \<Rightarrow> TransProj \<Rightarrow> (error + int list) \<times> TransProj" where
  "build_flp_binary pack_f ppq transproj =
     (let (st, transproj') = build_flp_stream pack_f ppq transproj
      in (then_do st stream_bytes, transproj'))"

text \<open>
  \<open>FLStudioWriter.write\<close> on a new writer without the optional backend:
  \<open>self.ppq = transproj.ppq or self.ppq\<close>, then the binary is built (and written to the
  file). The result is the bytes, or the exception, and the project as the call leaves it.
\<close>

definition write_flp ::
  "(rat \<Rightarrow> error + int list) \<Rightarrow> TransProj \<Rightarrow> (error + int list) \<times> TransProj" where
  "write_flp pack_f transproj =
     build_flp_binary pack_f (if proj_ppq transproj \<noteq> 0 then proj_ppq transproj else 960)
       transproj"

text \<open>The documented range of a normalized field, \<open>0.0\<close> to \<open>1.0\<close>.\<close>

definition unit_range :: "rat \<Rightarrow> bool" where
  "unit_range x = (0 \<le> x \<and> x \<le> 1)"

section \<open>Reading a note record\<close>

text \<open>
  What the target format's reader sees in a record: the little-endian value of the \<open>n\<close>
  bytes at an offset.
\<close>

definition field :: "int list \<Rightarrow> nat \<Rightarrow> nat \<Rightarrow> int" where
  "field r offset n = le_value (take n (drop offset r))"



text \<open>The clip of the spec's end-to-end scenario: two notes, the second at velocity 0.5.\<close>

definition two_notes :: Clip where
  "two_notes = \<lparr>clip_name = ''c'', clip_start = 0, clip_duration = 4,
     clip_notes = [\<lparr>note_position = 0, note_duration = 1, note_key = 60, note_velocity = 1\<rparr>,
                   \<lparr>note_position = 2, note_duration = 1 / 2, note_key = 64,
                    note_velocity = 1 / 2\<rparr>],
     clip_audio_path = [], clip_is_midi = True, clip_scene_index = None\<rparr>"

section \<open>MIDI clips in emission order\<close>

text \<open>
  The MIDI clips of a list of tracks in track order, then clip order, each with the index
  and the name of its track; the indices start at \<open>i\<close>.
\<close>

fun midi_clips_from :: "int \<Rightarrow> Track list \<Rightarrow> (int \<times> string \<times> Clip) list" where
  "midi_clips_from i [] = []"
| "midi_clips_from i (t # ts) =
     map (\<lambda>c. (i, track_name t, c)) (filter clip_is_midi (track_clips t))
     @ midi_clips_from (i + 1) ts"

definition midi_clips :: "Track list \<Rightarrow> (int \<times> string \<times> Clip) list" where
  "midi_clips ts = midi_clips_from 0 ts"

text \<open>
  \<open>pat\<close> is the pattern record \<open>_write_pattern\<close> writes for the clip \<open>m\<close> under the
  zero-based index \<open>pattern_idx\<close>.
\<close>

definition pattern_written ::
  "int \<Rightarrow> int \<Rightarrow> (int \<times> string \<times> Clip) \<Rightarrow> event list \<Rightarrow> bool" where
  "pattern_written ppq pattern_idx m pat =
     (case m of (track_idx, trk_name, clip) \<Rightarrow>
        write_pattern ppq pattern_idx track_idx trk_name clip = Inr pat)"

text \<open>
  A project with two tracks: an audio clip and a MIDI clip on the first, a session clip
  and an instrument rack of two devices on the second.
\<close>

definition demo_project :: TransProj where
  "demo_project =
     \<lparr>proj_name = ''demo'', proj_tempo = 128, proj_ppq = 96,
      proj_tracks =
        [\<lparr>track_name = ''Lead'', track_color = (128, 128, 128), track_volume = 1,
          track_pan = 0, track_muted = False, track_solo = False,
          track_clips =
            [\<lparr>clip_name = ''a'', clip_start = 0, clip_duration = 4, clip_notes = [],
              clip_audio_path = ''a.wav'', clip_is_midi = False, clip_scene_index = None\<rparr>,
             two_notes],
          track_instrument = None, track_effects = [], track_racks = []\<rparr>,
         \<lparr>track_name = ''Pad'', track_color = (128, 128, 128), track_volume = 1 / 2,
          track_pan = 0, track_muted = False, track_solo = False,
          track_clips =
            [\<lparr>clip_name = ''s'', clip_start = 0, clip_duration = 4, clip_notes = [],
              clip_audio_path = [], clip_is_midi = True, clip_scene_index = Some 0\<rparr>],
          track_instrument = None, track_effects = [],
          track_racks =
            [\<lparr>rack_name = ''Instrument'', rack_type = Some ''InstrumentGroupDevice'',
              rack_plugins =
                [\<lparr>plug_name = ''Operator'', plug_manufacturer = ''Ableton'',
                  plug_is_instrument = True, plug_device_type = None, plug_vst_id = None,
                  plug_parameters = []\<rparr>,
                 \<lparr>plug_name = ''Reverb'', plug_manufacturer = ''Ableton'',
                  plug_is_instrument = True, plug_device_type = None, plug_vst_id = None,
                  plug_parameters = []\<rparr>],
              rack_drum_pads = []\<rparr>]\<rparr>],
      proj_ableton_version = [], proj_is_session_view = False\<rparr>"

text \<open>
  A stand-in for \<open>struct.pack('<f', x)\<close> where its bytes do not matter.
\<close>

definition pack_f_zero :: "rat \<Rightarrow> error + int list" where
  "pack_f_zero x = Inr [0, 0, 0, 0]"

text \<open>
  The racks \<open>_normalize_track_plugins\<close> acts on: not a drum rack, of type
  \<open>InstrumentGroupDevice\<close>, with at least one nested plugin.
\<close>

definition instrument_group :: "Rack \<Rightarrow> bool" where
  "instrument_group rack =
     (\<not> is_drum_rack rack \<and> rack_type rack = Some ''InstrumentGroupDevice''
      \<and> rack_plugins rack \<noteq> [])"

text \<open>
  A MIDI track without an instrument whose only rack is an effect rack, as the parser
  builds it for an audio-effect group on a MIDI track.
\<close>

definition fx_rack_track :: Track where
  "fx_rack_track =
     \<lparr>track_name = ''Keys'', track_color = (128, 128, 128), track_volume = 1,
      track_pan = 0, track_muted = False, track_solo = False,
      track_clips = [two_notes],
      track_instrument = None, track_effects = [],
      track_racks =
        [\<lparr>rack_name = ''AudioEffect'', rack_type = None,
          rack_plugins =
            [\<lparr>plug_name = ''Reverb'', plug_manufacturer = ''Ableton'',
              plug_is_instrument = False, plug_device_type = None, plug_vst_id = None,
              plug_parameters = []\<rparr>],
          rack_drum_pads = []\<rparr>]\<rparr>"

text \<open>
  A MIDI track whose instrument is a Simpler, as the parser builds it for an
  \<open>OriginalSimpler\<close> device.
\<close>

definition simpler_track :: Track where
  "simpler_track =
     \<lparr>track_name = ''Bass'', track_color = (128, 128, 128), track_volume = 1,
      track_pan = 0, track_muted = False, track_solo = False,
      track_clips = [two_notes],
      track_instrument =
        Some \<lparr>plug_name = ''OriginalSimpler'', plug_manufacturer = ''Ableton'',
              plug_is_instrument = True, plug_device_type = None, plug_vst_id = None,
              plug_parameters = []\<rparr>,
      track_effects = [], track_racks = []\<rparr>"

section \<open>The source parser (parsers/ableton_parser.py)\<close>

text \<open>
  An element of the markup tree: its tag, its attributes and its children in document
  order.
\<close>

datatype xml = Element (xml_tag: string) (xml_attrib: "(string \<times> string) list")
  (xml_children: "xml list")

text \<open>
  \<open>elem.get(key, default)\<close>
\<close>

definition attr_get :: "xml \<Rightarrow> string \<Rightarrow> string \<Rightarrow> string" where
  "attr_get elem k dflt = (case map_of (xml_attrib elem) k of Some v \<Rightarrow> v | None \<Rightarrow> dflt)"

text \<open>
  The elements below an element, in document order (what \<open>elem.iter()\<close> yields after
  the element itself).
\<close>

fun descendants :: "xml \<Rightarrow> xml list" where
  "descendants (Element t a cs) = concat (map (\<lambda>c. c # descendants c) cs)"

text \<open>
  The steps of an ElementTree path, on the list of elements selected so far: \<open>/tag\<close>
  selects the children with that tag, \<open>//tag\<close> the descendants with that tag.
  \<open>findall(path)\<close> is the list the steps give from \<open>[elem]\<close>, and \<open>find(path)\<close> its first
  element (\<open>first_of\<close>).
\<close>

definition child_step :: "string \<Rightarrow> xml list \<Rightarrow> xml list" where
  "child_step t elems =
     concat (map (\<lambda>e. filter (\<lambda>c. xml_tag c = t) (xml_children e)) elems)"

definition desc_step :: "string \<Rightarrow> xml list \<Rightarrow> xml list" where
  "desc_step t elems =
     concat (map (\<lambda>e. filter (\<lambda>c. xml_tag c = t) (descendants e)) elems)"

definition first_of :: "'a list \<Rightarrow> 'a option" where
  "first_of xs = (case xs of [] \<Rightarrow> None | x # rest \<Rightarrow> Some x)"

text \<open>
  \<open>if elem:\<close> on the result of \<open>find\<close>: false for \<open>None\<close> and for an element without
  children.
\<close>

definition truthy :: "xml option \<Rightarrow> bool" where
  "truthy r = (case r of None \<Rightarrow> False | Some e \<Rightarrow> xml_children e \<noteq> [])"

text \<open>
  \<open>AbletonParser._get_clip_name\<close>
\<close>

definition get_clip_name :: "xml \<Rightarrow> string" where
  "get_clip_name clip_elem =
     (case first_of (desc_step ''Name'' [clip_elem]) of
        Some name_elem \<Rightarrow> attr_get name_elem ''Value'' []
      | None \<Rightarrow> [])"

text \<open>
  The start and end of a clip, as \<open>_parse_midi_clip\<close> and \<open>_parse_audio_clip\<close> read them.
  \<open>float(s)\<close> and \<open>int(s)\<close> on a string are the parameters \<open>float_of\<close> and \<open>int_of\<close> (a
  number, or \<open>ValueError\<close>).
\<close>

definition clip_times :: "(string \<Rightarrow> error + rat) \<Rightarrow> xml \<Rightarrow> error + (rat \<times> rat)" where
  "clip_times float_of clip_elem =
     then_do (case first_of (desc_step ''CurrentStart'' [clip_elem]) of
                Some start_elem \<Rightarrow> float_of (attr_get start_elem ''Value'' ''0'')
              | None \<Rightarrow> Inr 0) (\<lambda>start.
     then_do (case first_of (desc_step ''CurrentEnd'' [clip_elem]) of
                Some end_elem \<Rightarrow> float_of (attr_get end_elem ''Value'' ''4'')
              | None \<Rightarrow> Inr 4) (\<lambda>end.
     Inr (start, end)))"

text \<open>
  \<open>AbletonParser._parse_midi_clip\<close>: the body of its loop over the note events of a key,
  the body of its loop over the keys, and the function.
\<close>

definition parse_note :: "(string \<Rightarrow> error + rat) \<Rightarrow> int \<Rightarrow> xml \<Rightarrow> error + Note" where
  "parse_note float_of note_num note_elem =
     then_do (float_of (attr_get note_elem ''Time'' ''0'')) (\<lambda>time.
     then_do (float_of (attr_get note_elem ''Duration'' ''1'')) (\<lambda>duration.
     then_do (float_of (attr_get note_elem ''Velocity'' ''100'')) (\<lambda>velocity.
     Inr \<lparr>note_position = time, note_duration = duration, note_key = note_num,
          note_velocity = velocity / 127\<rparr>)))"

definition parse_key_track ::
  "(string \<Rightarrow> error + rat) \<Rightarrow> (string \<Rightarrow> error + int) \<Rightarrow> xml \<Rightarrow> error + Note list" where
  "parse_key_track float_of int_of key_track =
     (case first_of (desc_step ''MidiKey'' [key_track]) of
        None \<Rightarrow> Inr []
      | Some midi_key_elem \<Rightarrow>
          then_do (int_of (attr_get midi_key_elem ''Value'' ''60'')) (\<lambda>note_num.
          (let notes_elem = first_of (desc_step ''Notes'' [key_track])
           in if truthy notes_elem
              then for_each (parse_note float_of note_num)
                     (child_step ''MidiNoteEvent'' [the notes_elem])
              else Inr [])))"

definition parse_midi_clip ::
  "(string \<Rightarrow> error + rat) \<Rightarrow> (string \<Rightarrow> error + int) \<Rightarrow> xml \<Rightarrow> int option \<Rightarrow> error + Clip"
  where
  "parse_midi_clip float_of int_of clip_elem scene_index =
     (let name = (case first_of (desc_step ''Name'' [clip_elem]) of
                    Some name_elem \<Rightarrow> attr_get name_elem ''Value'' ''MIDI Clip''
                  | None \<Rightarrow> ''MIDI Clip'')
      in then_do (clip_times float_of clip_elem) (\<lambda>(start, end).
         (let key_tracks = first_of (child_step ''KeyTracks'' (desc_step ''Notes'' [clip_elem]))
          in then_do (if truthy key_tracks
                      then for_each (parse_key_track float_of int_of)
                             (child_step ''KeyTrack'' [the key_tracks])
                      else Inr []) (\<lambda>notes.
             Inr \<lparr>clip_name = name, clip_start = start, clip_duration = end - start,
                  clip_notes = concat notes, clip_audio_path = [], clip_is_midi = True,
                  clip_scene_index = scene_index\<rparr>))))"

text \<open>
  \<open>AbletonParser._parse_audio_clip\<close>
\<close>

definition parse_audio_clip ::
  "(string \<Rightarrow> error + rat) \<Rightarrow> xml \<Rightarrow> int option \<Rightarrow> error + Clip" where
  "parse_audio_clip float_of clip_elem scene_index =
     (let name = (case first_of (desc_step ''Name'' [clip_elem]) of
                    Some name_elem \<Rightarrow> attr_get name_elem ''Value'' ''Audio Clip''
                  | None \<Rightarrow> ''Audio Clip'')
      in then_do (clip_times float_of clip_elem) (\<lambda>(start, end).
         (let sample_ref = first_of (child_step ''FileRef'' (desc_step ''SampleRef'' [clip_elem]));
              path = (if truthy sample_ref
                      then (case first_of (desc_step ''Path'' [the sample_ref]) of
                              Some path_elem \<Rightarrow> attr_get path_elem ''Value'' []
                            | None \<Rightarrow> [])
                      else [])
          in Inr \<lparr>clip_name = name, clip_start = start, clip_duration = end - start,
                  clip_notes = [], clip_audio_path = path, clip_is_midi = False,
                  clip_scene_index = scene_index\<rparr>)))"

text \<open>
  \<open>AbletonParser._parse_clip_slot\<close>: the clips it appends to \<open>track.clips\<close>.
\<close>

definition parse_clip_slot ::
  "(string \<Rightarrow> error + rat) \<Rightarrow> (string \<Rightarrow> error + int) \<Rightarrow> xml \<Rightarrow> int \<Rightarrow> error + Clip list"
  where
  "parse_clip_slot float_of int_of slot_elem scene_idx =
     (case first_of (child_step ''Value'' [slot_elem]) of
        None \<Rightarrow> Inr []
      | Some value_elem \<Rightarrow>
          then_do (case first_of (child_step ''MidiClip'' [value_elem]) of
                     Some midi_clip \<Rightarrow>
                       then_do (parse_midi_clip float_of int_of midi_clip (Some scene_idx))
                         (\<lambda>clip. Inr [clip])
                   | None \<Rightarrow> Inr []) (\<lambda>midi.
          then_do (case first_of (child_step ''AudioClip'' [value_elem]) of
                     Some audio_clip \<Rightarrow>
                       then_do (parse_audio_clip float_of audio_clip (Some scene_idx))
                         (\<lambda>clip. Inr [clip])
                   | None \<Rightarrow> Inr []) (\<lambda>audio.
          Inr (midi @ audio))))"

text \<open>
  The clip collection of \<open>AbletonParser._parse_track\<close>: the loop over the clip slots, the
  two fallback sweeps over the track's MIDI and audio clip elements (each looks at the
  clips collected so far, the ones it appended included), and the three passes in order.
  The result is \<open>track.clips\<close> as the passes leave it.
\<close>

fun slots_loop ::
  "(string \<Rightarrow> error + rat) \<Rightarrow> (string \<Rightarrow> error + int) \<Rightarrow> int \<Rightarrow> xml list \<Rightarrow> error + Clip list"
  where
  "slots_loop float_of int_of scene_idx [] = Inr []"
| "slots_loop float_of int_of scene_idx (slot # rest) =
     then_do (parse_clip_slot float_of int_of slot scene_idx) (\<lambda>found.
     then_do (slots_loop float_of int_of (scene_idx + 1) rest) (\<lambda>more.
     Inr (found @ more)))"

fun sweep_midi ::
  "(string \<Rightarrow> error + rat) \<Rightarrow> (string \<Rightarrow> error + int) \<Rightarrow> xml list \<Rightarrow> Clip list
   \<Rightarrow> error + Clip list" where
  "sweep_midi float_of int_of [] clips = Inr clips"
| "sweep_midi float_of int_of (midi_clip # rest) clips =
     (if \<not> list_ex (\<lambda>c. clip_name c = get_clip_name midi_clip) clips
      then then_do (parse_midi_clip float_of int_of midi_clip None) (\<lambda>clip.
           sweep_midi float_of int_of rest (clips @ [clip]))
      else sweep_midi float_of int_of rest clips)"

fun sweep_audio ::
  "(string \<Rightarrow> error + rat) \<Rightarrow> xml list \<Rightarrow> Clip list \<Rightarrow> error + Clip list" where
  "sweep_audio float_of [] clips = Inr clips"
| "sweep_audio float_of (audio_clip # rest) clips =
     (if \<not> list_ex (\<lambda>c. clip_name c = get_clip_name audio_clip) clips
      then then_do (parse_audio_clip float_of audio_clip None) (\<lambda>clip.
           sweep_audio float_of rest (clips @ [clip]))
      else sweep_audio float_of rest clips)"

definition parse_track_clips ::
  "(string \<Rightarrow> error + rat) \<Rightarrow> (string \<Rightarrow> error + int) \<Rightarrow> xml \<Rightarrow> error + Clip list" where
  "parse_track_clips float_of int_of track_elem =
     (let clip_slots = first_of (desc_step ''ClipSlotList'' [track_elem])
      in then_do (if truthy clip_slots
                  then slots_loop float_of int_of 0 (child_step ''ClipSlot'' [the clip_slots])
                  else Inr []) (\<lambda>session.
         (let events = first_of (child_step ''Events'' (child_step ''ArrangerAutomation''
                         (child_step ''ClipTimeable'' (desc_step ''MainSequencer'' [track_elem]))))
          in then_do (if truthy events
                      then then_do (for_each (\<lambda>e. parse_midi_clip float_of int_of e None)
                                      (desc_step ''MidiClip'' [the events])) (\<lambda>midi.
                           then_do (for_each (\<lambda>e. parse_audio_clip float_of e None)
                                      (desc_step ''AudioClip'' [the events])) (\<lambda>audio.
                           Inr (midi @ audio)))
                      else Inr []) (\<lambda>arrangement.
             then_do (sweep_midi float_of int_of (desc_step ''MidiClip'' [track_elem])
                        (session @ arrangement)) (\<lambda>clips.
             sweep_audio float_of (desc_step ''AudioClip'' [track_elem]) clips)))))"

text \<open>
  Example inputs: conversions that know no number, or the two numbers the example
  needs; a MIDI clip as this repository's own \<open>AbletonWriter._write_midi_clip\<close> writes it
  (the name is the \<open>Value\<close> attribute of a \<open>Value\<close> element below \<open>Name\<close>); a clip whose
  \<open>Name\<close> element carries the \<open>Value\<close> attribute; and a track with one clip slot holding
  a clip, as \<open>AbletonWriter._write_track\<close> writes it.
\<close>

definition no_number :: "string \<Rightarrow> error + 'a" where
  "no_number s = Inl ValueError"

definition demo_float :: "string \<Rightarrow> error + rat" where
  "demo_float s =
     (if s = ''0.0'' then Inr 0 else if s = ''4.0'' then Inr 4 else Inl ValueError)"

definition written_clip :: xml where
  "written_clip =
     Element ''MidiClip'' [(''Value'', ''true'')]
       [Element ''Name'' [] [Element ''Value'' [(''Value'', ''Intro'')] []],
        Element ''CurrentStart'' [(''Value'', ''0.0'')] [],
        Element ''CurrentEnd'' [(''Value'', ''4.0'')] [],
        Element ''Notes'' [] [Element ''KeyTracks'' [] []]]"

definition named_clip :: xml where
  "named_clip =
     Element ''MidiClip'' []
       [Element ''Name'' [(''Value'', ''Intro'')] [],
        Element ''CurrentStart'' [(''Value'', ''0.0'')] [],
        Element ''CurrentEnd'' [(''Value'', ''4.0'')] []]"

definition slot_track :: "xml \<Rightarrow> xml" where
  "slot_track clip_elem =
     Element ''MidiTrack'' []
       [Element ''Name'' [] [Element ''EffectiveName'' [(''Value'', ''Lead'')] []],
        Element ''ClipSlotList'' []
          [Element ''ClipSlot'' [] [Element ''Value'' [] [clip_elem]]]]"

section \<open>Exceptions and loops\<close>


lemma then_do_Inr: "then_do m f = Inr y \<longleftrightarrow> (\<exists>x. m = Inr x \<and> f x = Inr y)"
  by (cases m) (simp_all add: then_do_def)

lemma then_do_simps: "then_do (Inr x) f = f x" "then_do (Inl e) f = Inl e"
  by (simp_all add: then_do_def)

lemma for_each_Inr:
  "for_each f xs = Inr ys \<Longrightarrow> length ys = length xs \<and> (\<forall>i<length xs. f (xs ! i) = Inr (ys ! i))"
proof (induction xs arbitrary: ys)
  case Nil
  then show ?case by simp
next
  case (Cons x xs)
  from Cons.prems obtain y zs where y: "f x = Inr y" and zs: "for_each f xs = Inr zs"
    and ys: "ys = y # zs"
    by (auto simp: then_do_Inr)
  from Cons.IH [OF zs] y ys show ?case
    by (auto simp: nth_Cons split: nat.splits)
qed

lemma for_each_total:
  "(\<And>x. x \<in> set xs \<Longrightarrow> \<exists>y. f x = Inr y) \<Longrightarrow> \<exists>ys. for_each f xs = Inr ys"
proof (induction xs)
  case Nil
  then show ?case by simp
next
  case (Cons x xs)
  then obtain y where "f x = Inr y" by auto
  moreover from Cons obtain ys where "for_each f xs = Inr ys" by auto
  ultimately show ?case by (simp add: then_do_simps)
qed

lemma for_each_cong:
  "(\<And>x. x \<in> set xs \<Longrightarrow> f x = g x) \<Longrightarrow> for_each f xs = for_each g xs"
  by (induction xs) simp_all


section \<open>Truncation and rounding\<close>

lemma py_int_nonneg:
  "0 \<le> x \<Longrightarrow> of_int (py_int x) \<le> x \<and> x < of_int (py_int x) + 1"
  unfolding py_int_def by (simp add: floor_less_iff) linarith





section \<open>Tick conversion\<close>



section \<open>Device names\<close>

lemma drums_nonempty: "map_of ABLETON_TO_FL_DRUMS k = Some v \<Longrightarrow> v \<noteq> []"
  by (auto simp: ABLETON_TO_FL_DRUMS_def split: if_splits)

lemma instruments_nonempty: "map_of ABLETON_TO_FL_INSTRUMENTS k = Some v \<Longrightarrow> v \<noteq> []"
  by (auto simp: ABLETON_TO_FL_INSTRUMENTS_def split: if_splits)

lemma effects_nonempty: "map_of ABLETON_TO_FL_EFFECTS k = Some v \<Longrightarrow> v \<noteq> []"
  by (auto simp: ABLETON_TO_FL_EFFECTS_def split: if_splits)

lemma ableton_to_fl_nonempty:
  "ableton_name \<noteq> [] \<or> is_instrument
   \<Longrightarrow> ableton_to_fl ableton_name is_instrument device_type \<noteq> []"
  by (auto simp: ableton_to_fl_def Let_def
      dest: drums_nonempty instruments_nonempty effects_nonempty split: option.splits)

text \<open>
  C7 (as the code has it). With \<open>lookup_name = device_type or ableton_name\<close>:
  the drum table is consulted first and decides when it has the lookup name; otherwise an
  instrument gets the instrument table's entry, or \<open>Sampler\<close> when it has none; otherwise an
  effect gets the effect table's entry, or the source name unchanged when it has none. The
  result is a non-empty string whenever the source name is non-empty or the device is an
  instrument.
\<close>

theorem ableton_to_fl_total:
  "(map_of ABLETON_TO_FL_DRUMS (lookup_name_of s dt) = Some fl
      \<longrightarrow> ableton_to_fl s is_instr dt = fl)
   \<and> (map_of ABLETON_TO_FL_DRUMS (lookup_name_of s dt) = None
        \<and> map_of ABLETON_TO_FL_INSTRUMENTS (lookup_name_of s dt) = None
      \<longrightarrow> ableton_to_fl s True dt = ''Sampler'')
   \<and> (map_of ABLETON_TO_FL_DRUMS (lookup_name_of s dt) = None
        \<and> map_of ABLETON_TO_FL_EFFECTS (lookup_name_of s dt) = None
      \<longrightarrow> ableton_to_fl s False dt = s)
   \<and> (s \<noteq> [] \<or> is_instr \<longrightarrow> ableton_to_fl s is_instr dt \<noteq> [])"
  using ableton_to_fl_nonempty [of s is_instr dt]
  by (simp add: ableton_to_fl_def Let_def)

theorem ableton_to_fl_total_witness:
  "ableton_to_fl ''DrumGroupDevice'' False None = ''FPC''
   \<and> ableton_to_fl ''MySynth'' True None = ''Sampler''
   \<and> ableton_to_fl ''MyFx'' False None = ''MyFx''
   \<and> ableton_to_fl ''Reverb'' False (Some ''Unknown'') = ''Reverb''
   \<and> ableton_to_fl ''MyFx'' False None \<noteq> []"
  using ableton_to_fl_total [of "''DrumGroupDevice''" None "''FPC''" False]
    ableton_to_fl_total [of "''MySynth''" None "''FPC''" True]
    ableton_to_fl_total [of "''MyFx''" None "''FPC''" False]
    ableton_to_fl_total [of "''Reverb''" "Some ''Unknown''" "''FPC''" False]
  by (simp add: lookup_name_of_def ABLETON_TO_FL_DRUMS_def ABLETON_TO_FL_INSTRUMENTS_def
      ABLETON_TO_FL_EFFECTS_def)

text \<open>
  C7 as the spec states it fails at the empty string: an unmapped effect named \<open>''\<close> is
  passed through unchanged, so the result is the empty string.
\<close>

theorem ableton_to_fl_empty_counterexample:
  "ableton_to_fl [] False None = []"
  by (simp add: ableton_to_fl_def lookup_name_of_def Let_def ABLETON_TO_FL_DRUMS_def
      ABLETON_TO_FL_EFFECTS_def)

section \<open>Parameter value ranges\<close>







section \<open>Plugin state blobs\<close>

lemma pack_I_small: "0 \<le> v \<Longrightarrow> v < 256 \<Longrightarrow> pack_I v = Inr [v, 0, 0, 0]"
  by (simp add: pack_I_def)

lemma fpc_pad_record_take:
  "i < 16 \<Longrightarrow> fpc_pad_record (take 16 pads) i = fpc_pad_record pads i"
  by (simp add: fpc_pad_record_def)

lemma generate_fpc_state_take: "generate_fpc_state (take 16 pads) = generate_fpc_state pads"
proof -
  have "for_each (fpc_pad_record (take 16 pads)) [0..<16] = for_each (fpc_pad_record pads) [0..<16]"
    by (rule for_each_cong) (simp add: fpc_pad_record_take)
  moreover have "min (length (take 16 pads)) 16 = min (length pads) 16" by simp
  ultimately show ?thesis by (simp only: generate_fpc_state_def)
qed

lemma fpc_records:
  assumes "generate_fpc_state pads = Inr blob"
  shows "\<exists>records. length records = 16
           \<and> blob = ascii ''FPC '' @ [1, 0, 0, 0] @ [int (min (length pads) 16), 0, 0, 0]
                    @ concat records
           \<and> (\<forall>i<16. fpc_pad_record pads i = Inr (records ! i))"
proof -
  have c: "pack_I (int (min (length pads) 16)) = Inr [int (min (length pads) 16), 0, 0, 0]"
    by (rule pack_I_small) simp_all
  from assms obtain records where r: "for_each (fpc_pad_record pads) [0..<16] = Inr records"
    and b: "blob = ascii ''FPC '' @ [1, 0, 0, 0] @ [int (min (length pads) 16), 0, 0, 0]
                    @ concat records"
    unfolding generate_fpc_state_def c
    by (auto simp: then_do_Inr pack_I_def)
  from for_each_Inr [OF r] have "length records = 16"
    and "\<forall>i<16. fpc_pad_record pads i = Inr (records ! i)"
    by simp_all
  with b show ?thesis by blast
qed

lemma fpc_absent: "length pads \<le> i \<Longrightarrow> fpc_pad_record pads i = Inr [0, 0, 0, 100, 100, 100]"
  by (simp add: fpc_pad_record_def pack_H_def then_do_simps)

lemma fpc_present:
  "i < length pads \<Longrightarrow> fpc_pad_record pads i = Inr r \<Longrightarrow> hd r = 1 \<and> 6 \<le> length r"
  by (auto simp: fpc_pad_record_def Let_def then_do_Inr pack_H_def split: if_splits)


lemma percent_byte_unit: "0 \<le> x \<Longrightarrow> x \<le> 1 \<Longrightarrow> percent_byte x = Inr (py_int (x * 100))"
proof -
  assume a: "0 \<le> x" "x \<le> 1"
  then have p: "0 \<le> x * 100" by simp
  from py_int_nonneg [OF p] a have "0 \<le> py_int (x * 100)" by (simp add: py_int_def)
  moreover have "py_int (x * 100) < 256"
  proof -
    from py_int_nonneg [OF p] a have "(of_int (py_int (x * 100)) :: rat) \<le> 100" by simp
    then have "py_int (x * 100) \<le> 100" by linarith
    then show ?thesis by simp
  qed
  ultimately show ?thesis by (simp add: percent_byte_def byte_of_def)
qed


lemma fpc_pad_record_total:
  assumes "i < length pads \<Longrightarrow>
      length (utf8_encode (get_or (pd_sample_path (pads ! i)) [])) < 65536
      \<and> unit_range (get_or (pd_volume (pads ! i)) 1)
      \<and> unit_range (get_or (pd_pan (pads ! i)) (1 / 2))
      \<and> unit_range (get_or (pd_tune (pads ! i)) (1 / 2))"
  shows "\<exists>r. fpc_pad_record pads i = Inr r"
proof (cases "i < length pads")
  case False
  then show ?thesis by (simp add: fpc_absent)
next
  case True
  with assms show ?thesis
    by (simp add: fpc_pad_record_def Let_def unit_range_def percent_byte_unit then_do_simps pack_H_def)
qed


lemma generate_fpc_state_total:
  assumes "\<forall>pad\<in>set (take 16 pads).
      length (utf8_encode (get_or (pd_sample_path pad) [])) < 65536
      \<and> unit_range (get_or (pd_volume pad) 1)
      \<and> unit_range (get_or (pd_pan pad) (1 / 2))
      \<and> unit_range (get_or (pd_tune pad) (1 / 2))"
  shows "\<exists>blob. generate_fpc_state pads = Inr blob"
proof -
  have "\<exists>r. fpc_pad_record pads i = Inr r" if "i \<in> set [0..<16]" for i
  proof (rule fpc_pad_record_total)
    assume l: "i < length pads"
    with that have "pads ! i \<in> set (take 16 pads)"
      by (auto simp: in_set_conv_nth intro!: exI [of _ i])
    with assms show "length (utf8_encode (get_or (pd_sample_path (pads ! i)) [])) < 65536
      \<and> unit_range (get_or (pd_volume (pads ! i)) 1)
      \<and> unit_range (get_or (pd_pan (pads ! i)) (1 / 2))
      \<and> unit_range (get_or (pd_tune (pads ! i)) (1 / 2))" by blast
  qed
  then obtain records where "for_each (fpc_pad_record pads) [0..<16] = Inr records"
    using for_each_total [of "[0..<16]" "fpc_pad_record pads"] by blast
  then show ?thesis
    by (simp add: generate_fpc_state_def then_do_simps pack_I_def)
qed

lemma eq_band_record_take:
  "i < 7 \<Longrightarrow> eq_band_record (take 7 bands) i = eq_band_record bands i"
  by (simp add: eq_band_record_def)

lemma generate_fruity_eq_state_take:
  "generate_fruity_eq_state (take 7 bands) = generate_fruity_eq_state bands"
proof -
  have "for_each (eq_band_record (take 7 bands)) [0..<7] = for_each (eq_band_record bands) [0..<7]"
    by (rule for_each_cong) (simp add: eq_band_record_take)
  moreover have "min (length (take 7 bands)) 7 = min (length bands) 7" by simp
  ultimately show ?thesis by (simp only: generate_fruity_eq_state_def)
qed

lemma eq_records:
  assumes "generate_fruity_eq_state bands = Inr blob"
  shows "\<exists>records. length records = 7
           \<and> blob = ascii ''PEQ2'' @ [1, 0, 0, 0] @ [int (min (length bands) 7), 0, 0, 0]
                    @ concat records
           \<and> (\<forall>i<7. eq_band_record bands i = Inr (records ! i))"
proof -
  have c: "pack_I (int (min (length bands) 7)) = Inr [int (min (length bands) 7), 0, 0, 0]"
    by (rule pack_I_small) simp_all
  from assms obtain records where r: "for_each (eq_band_record bands) [0..<7] = Inr records"
    and b: "blob = ascii ''PEQ2'' @ [1, 0, 0, 0] @ [int (min (length bands) 7), 0, 0, 0]
                    @ concat records"
    unfolding generate_fruity_eq_state_def c
    by (auto simp: then_do_Inr pack_I_def)
  from for_each_Inr [OF r] have "length records = 7"
    and "\<forall>i<7. eq_band_record bands i = Inr (records ! i)"
    by simp_all
  with b show ?thesis by blast
qed

lemma eq_absent: "length bands \<le> i \<Longrightarrow> eq_band_record bands i = Inr [0, 50, 50, 50, 0]"
  by (simp add: eq_band_record_def)

lemma eq_record_shape:
  "eq_band_record bands i = Inr r \<Longrightarrow> length r = 5 \<and> (i < length bands \<longrightarrow> hd r = 1)"
  by (auto simp: eq_band_record_def Let_def then_do_Inr split: if_splits)

lemma eq_band_record_total:
  assumes "i < length bands \<Longrightarrow>
      unit_range (get_or (bd_freq (bands ! i)) (1 / 2))
      \<and> unit_range (get_or (bd_gain (bands ! i)) (1 / 2))
      \<and> unit_range (get_or (bd_q (bands ! i)) (1 / 2))
      \<and> 0 \<le> get_or (bd_type (bands ! i)) 0 \<and> get_or (bd_type (bands ! i)) 0 < 256"
  shows "\<exists>r. eq_band_record bands i = Inr r"
proof (cases "i < length bands")
  case False
  then show ?thesis by (simp add: eq_absent)
next
  case True
  with assms show ?thesis
    by (simp add: eq_band_record_def Let_def unit_range_def percent_byte_unit then_do_simps
        byte_of_def)
qed

lemma generate_fruity_eq_state_total:
  assumes "\<forall>band\<in>set (take 7 bands).
      unit_range (get_or (bd_freq band) (1 / 2))
      \<and> unit_range (get_or (bd_gain band) (1 / 2))
      \<and> unit_range (get_or (bd_q band) (1 / 2))
      \<and> 0 \<le> get_or (bd_type band) 0 \<and> get_or (bd_type band) 0 < 256"
  shows "\<exists>blob. generate_fruity_eq_state bands = Inr blob"
proof -
  have "\<exists>r. eq_band_record bands i = Inr r" if "i \<in> set [0..<7]" for i
  proof (rule eq_band_record_total)
    assume l: "i < length bands"
    with that have "bands ! i \<in> set (take 7 bands)"
      by (auto simp: in_set_conv_nth intro!: exI [of _ i])
    with assms show "unit_range (get_or (bd_freq (bands ! i)) (1 / 2))
      \<and> unit_range (get_or (bd_gain (bands ! i)) (1 / 2))
      \<and> unit_range (get_or (bd_q (bands ! i)) (1 / 2))
      \<and> 0 \<le> get_or (bd_type (bands ! i)) 0 \<and> get_or (bd_type (bands ! i)) 0 < 256" by blast
  qed
  then obtain records where "for_each (eq_band_record bands) [0..<7] = Inr records"
    using for_each_total [of "[0..<7]" "eq_band_record bands"] by blast
  then show ?thesis
    by (simp add: generate_fruity_eq_state_def then_do_simps pack_I_def)
qed

text \<open>
  C9. Whenever the drum-kit encoder returns a blob, the blob is the magic tag, the version,
  the pad count \<open>min(n, 16)\<close> and exactly 16 pad records: record \<open>i\<close> is an enabled record
  (first byte 1) for \<open>i < n\<close> and the fixed disabled record for \<open>i \<ge> n\<close>; pads beyond the
  16th do not matter (the result is that of the first 16 pads). The equalizer encoder
  gives, in the same way, the band count \<open>min(n, 7)\<close> and exactly 7 band records of 5 bytes,
  the absent ones the fixed disabled record. Both encoders do return when the fields of
  the pads or bands they read are in their documented ranges (percentages in \<open>0..1\<close>, a
  path of fewer than 65536 bytes, a band type that is a byte); outside them a field does
  not fit its byte and the encoder raises.
\<close>

theorem blob_record_counts:
  "(generate_fpc_state pads = Inr blob \<longrightarrow>
      (\<exists>records. length records = 16
         \<and> blob = ascii ''FPC '' @ [1, 0, 0, 0] @ [int (min (length pads) 16), 0, 0, 0]
                  @ concat records
         \<and> (\<forall>i<16. fpc_pad_record pads i = Inr (records ! i))
         \<and> (\<forall>i<16. i < length pads \<longrightarrow> hd (records ! i) = 1)
         \<and> (\<forall>i<16. length pads \<le> i \<longrightarrow> records ! i = [0, 0, 0, 100, 100, 100])))
   \<and> generate_fpc_state (take 16 pads) = generate_fpc_state pads
   \<and> ((\<forall>pad\<in>set (take 16 pads).
          length (utf8_encode (get_or (pd_sample_path pad) [])) < 65536
          \<and> unit_range (get_or (pd_volume pad) 1)
          \<and> unit_range (get_or (pd_pan pad) (1 / 2))
          \<and> unit_range (get_or (pd_tune pad) (1 / 2)))
       \<longrightarrow> (\<exists>b. generate_fpc_state pads = Inr b))
   \<and> (generate_fruity_eq_state bands = Inr eq_blob \<longrightarrow>
      (\<exists>records. length records = 7
         \<and> eq_blob = ascii ''PEQ2'' @ [1, 0, 0, 0] @ [int (min (length bands) 7), 0, 0, 0]
                     @ concat records
         \<and> (\<forall>i<7. eq_band_record bands i = Inr (records ! i) \<and> length (records ! i) = 5)
         \<and> (\<forall>i<7. i < length bands \<longrightarrow> hd (records ! i) = 1)
         \<and> (\<forall>i<7. length bands \<le> i \<longrightarrow> records ! i = [0, 50, 50, 50, 0])))
   \<and> generate_fruity_eq_state (take 7 bands) = generate_fruity_eq_state bands
   \<and> ((\<forall>band\<in>set (take 7 bands).
          unit_range (get_or (bd_freq band) (1 / 2))
          \<and> unit_range (get_or (bd_gain band) (1 / 2))
          \<and> unit_range (get_or (bd_q band) (1 / 2))
          \<and> 0 \<le> get_or (bd_type band) 0 \<and> get_or (bd_type band) 0 < 256)
       \<longrightarrow> (\<exists>b. generate_fruity_eq_state bands = Inr b))"
proof (intro conjI impI)
  assume g: "generate_fpc_state pads = Inr blob"
  from fpc_records [OF g] obtain records where l: "length records = 16"
    and b: "blob = ascii ''FPC '' @ [1, 0, 0, 0] @ [int (min (length pads) 16), 0, 0, 0]
                  @ concat records"
    and r: "\<forall>i<16. fpc_pad_record pads i = Inr (records ! i)" by blast
  from r have "\<forall>i<16. i < length pads \<longrightarrow> hd (records ! i) = 1"
    using fpc_present by blast
  moreover from r have "\<forall>i<16. length pads \<le> i \<longrightarrow> records ! i = [0, 0, 0, 100, 100, 100]"
    using fpc_absent by fastforce
  ultimately show "\<exists>records. length records = 16
         \<and> blob = ascii ''FPC '' @ [1, 0, 0, 0] @ [int (min (length pads) 16), 0, 0, 0]
                  @ concat records
         \<and> (\<forall>i<16. fpc_pad_record pads i = Inr (records ! i))
         \<and> (\<forall>i<16. i < length pads \<longrightarrow> hd (records ! i) = 1)
         \<and> (\<forall>i<16. length pads \<le> i \<longrightarrow> records ! i = [0, 0, 0, 100, 100, 100])"
    using l b r by blast
next
  show "generate_fpc_state (take 16 pads) = generate_fpc_state pads"
    by (rule generate_fpc_state_take)
next
  assume "\<forall>pad\<in>set (take 16 pads).
          length (utf8_encode (get_or (pd_sample_path pad) [])) < 65536
          \<and> unit_range (get_or (pd_volume pad) 1)
          \<and> unit_range (get_or (pd_pan pad) (1 / 2))
          \<and> unit_range (get_or (pd_tune pad) (1 / 2))"
  then show "\<exists>b. generate_fpc_state pads = Inr b" by (rule generate_fpc_state_total)
next
  assume g: "generate_fruity_eq_state bands = Inr eq_blob"
  from eq_records [OF g] obtain records where l: "length records = 7"
    and b: "eq_blob = ascii ''PEQ2'' @ [1, 0, 0, 0] @ [int (min (length bands) 7), 0, 0, 0]
                  @ concat records"
    and r: "\<forall>i<7. eq_band_record bands i = Inr (records ! i)" by blast
  from r have "\<forall>i<7. eq_band_record bands i = Inr (records ! i) \<and> length (records ! i) = 5"
    using eq_record_shape by blast
  moreover from r have "\<forall>i<7. i < length bands \<longrightarrow> hd (records ! i) = 1"
    using eq_record_shape by blast
  moreover from r have "\<forall>i<7. length bands \<le> i \<longrightarrow> records ! i = [0, 50, 50, 50, 0]"
    using eq_absent by fastforce
  ultimately show "\<exists>records. length records = 7
         \<and> eq_blob = ascii ''PEQ2'' @ [1, 0, 0, 0] @ [int (min (length bands) 7), 0, 0, 0]
                     @ concat records
         \<and> (\<forall>i<7. eq_band_record bands i = Inr (records ! i) \<and> length (records ! i) = 5)
         \<and> (\<forall>i<7. i < length bands \<longrightarrow> hd (records ! i) = 1)
         \<and> (\<forall>i<7. length bands \<le> i \<longrightarrow> records ! i = [0, 50, 50, 50, 0])"
    using l b by blast
next
  show "generate_fruity_eq_state (take 7 bands) = generate_fruity_eq_state bands"
    by (rule generate_fruity_eq_state_take)
next
  assume "\<forall>band\<in>set (take 7 bands).
          unit_range (get_or (bd_freq band) (1 / 2))
          \<and> unit_range (get_or (bd_gain band) (1 / 2))
          \<and> unit_range (get_or (bd_q band) (1 / 2))
          \<and> 0 \<le> get_or (bd_type band) 0 \<and> get_or (bd_type band) 0 < 256"
  then show "\<exists>b. generate_fruity_eq_state bands = Inr b"
    by (rule generate_fruity_eq_state_total)
qed


theorem blob_record_counts_witness:
  "(\<exists>blob records.
      generate_fpc_state (replicate 20 \<lparr>pd_sample_path = Some ''k'', pd_volume = Some 1,
         pd_pan = None, pd_tune = None\<rparr>) = Inr blob
      \<and> length records = 16
      \<and> blob = ascii ''FPC '' @ [1, 0, 0, 0] @ [16, 0, 0, 0] @ concat records
      \<and> hd (records ! 15) = 1)
   \<and> (\<exists>blob records.
      generate_fpc_state [] = Inr blob
      \<and> length records = 16
      \<and> blob = ascii ''FPC '' @ [1, 0, 0, 0] @ [0, 0, 0, 0] @ concat records
      \<and> records ! 0 = [0, 0, 0, 100, 100, 100])
   \<and> (\<exists>blob records.
      generate_fruity_eq_state [\<lparr>bd_freq = Some (1 / 4), bd_gain = None, bd_q = None,
         bd_type = Some 2\<rparr>] = Inr blob
      \<and> length records = 7
      \<and> blob = ascii ''PEQ2'' @ [1, 0, 0, 0] @ [1, 0, 0, 0] @ concat records
      \<and> hd (records ! 0) = 1
      \<and> records ! 6 = [0, 50, 50, 50, 0])"
proof -
  let ?pad = "\<lparr>pd_sample_path = Some ''k'', pd_volume = Some 1, pd_pan = None, pd_tune = None\<rparr>"
  let ?band = "\<lparr>bd_freq = Some (1 / 4), bd_gain = None, bd_q = None, bd_type = Some 2\<rparr>"
  have u: "unit_range 1" "unit_range (1 / 2)" "unit_range (1 / 4)"
    by (simp_all add: unit_range_def)
  have "\<exists>b. generate_fpc_state (replicate 20 ?pad) = Inr b"
    using blob_record_counts [of "replicate 20 ?pad" undefined "[]" undefined] u
    by (simp add: get_or_def utf8_encode_def utf8_char_def Let_def)
  then obtain b1 where b1: "generate_fpc_state (replicate 20 ?pad) = Inr b1" ..
  have "\<exists>b. generate_fpc_state [] = Inr b"
    using blob_record_counts [of "[]" undefined "[]" undefined] by simp
  then obtain b2 where b2: "generate_fpc_state [] = Inr b2" ..
  have "\<exists>b. generate_fruity_eq_state [?band] = Inr b"
    using blob_record_counts [of "[]" undefined "[?band]" undefined] u
    by (simp add: get_or_def)
  then obtain b3 where b3: "generate_fruity_eq_state [?band] = Inr b3" ..
  from blob_record_counts [of "replicate 20 ?pad" b1 "[?band]" b3] b1 b3
  obtain r1 r3 where r1: "length r1 = 16"
      "b1 = ascii ''FPC '' @ [1, 0, 0, 0] @ [int (min (length (replicate 20 ?pad)) 16), 0, 0, 0]
            @ concat r1"
      "\<forall>i<16. i < length (replicate 20 ?pad) \<longrightarrow> hd (r1 ! i) = 1"
    and r3: "length r3 = 7"
      "b3 = ascii ''PEQ2'' @ [1, 0, 0, 0] @ [int (min (length [?band]) 7), 0, 0, 0] @ concat r3"
      "\<forall>i<7. i < length [?band] \<longrightarrow> hd (r3 ! i) = 1"
      "\<forall>i<7. length [?band] \<le> i \<longrightarrow> r3 ! i = [0, 50, 50, 50, 0]"
    by blast
  from blob_record_counts [of "[]" b2 "[]" undefined] b2
  obtain r2 where r2: "length r2 = 16"
      "b2 = ascii ''FPC '' @ [1, 0, 0, 0] @ [int (min (length ([] :: pad_dict list)) 16), 0, 0, 0]
            @ concat r2"
      "\<forall>i<16. length ([] :: pad_dict list) \<le> i \<longrightarrow> r2 ! i = [0, 0, 0, 100, 100, 100]"
    by blast
  have h1: "hd (r1 ! 15) = 1" using r1(3) by simp
  have h2: "r2 ! 0 = [0, 0, 0, 100, 100, 100]" using r2(3) by simp
  have h3: "hd (r3 ! 0) = 1" using r3(3) by simp
  have h4: "r3 ! 6 = [0, 50, 50, 50, 0]" using r3(4) by simp
  show ?thesis
  proof (intro conjI)
    show "\<exists>blob records.
      generate_fpc_state (replicate 20 ?pad) = Inr blob
      \<and> length records = 16
      \<and> blob = ascii ''FPC '' @ [1, 0, 0, 0] @ [16, 0, 0, 0] @ concat records
      \<and> hd (records ! 15) = 1"
      using b1 r1(1,2) h1 by (intro exI [of _ b1] exI [of _ r1]) simp
    show "\<exists>blob records.
      generate_fpc_state [] = Inr blob
      \<and> length records = 16
      \<and> blob = ascii ''FPC '' @ [1, 0, 0, 0] @ [0, 0, 0, 0] @ concat records
      \<and> records ! 0 = [0, 0, 0, 100, 100, 100]"
      using b2 r2(1,2) h2 by (intro exI [of _ b2] exI [of _ r2]) simp
    show "\<exists>blob records.
      generate_fruity_eq_state [?band] = Inr blob
      \<and> length records = 7
      \<and> blob = ascii ''PEQ2'' @ [1, 0, 0, 0] @ [1, 0, 0, 0] @ concat records
      \<and> hd (records ! 0) = 1
      \<and> records ! 6 = [0, 50, 50, 50, 0]"
      using b3 r3(1,2) h3 h4 by (intro exI [of _ b3] exI [of _ r3]) simp
  qed
qed

section \<open>Pattern records\<close>














section \<open>The event stream\<close>

lemma clips_loop_spec:
  "clips_loop ppq ti tn cs pc = Inr (pats, items, n) \<Longrightarrow>
     n = pc + int (length (filter clip_is_midi cs))
     \<and> length pats = length (filter clip_is_midi cs)
     \<and> (\<forall>k<length pats.
           pattern_written ppq (pc + int k) (ti, tn, filter clip_is_midi cs ! k) (pats ! k))"
proof (induction cs arbitrary: pc pats items n)
  case Nil
  then show ?case by simp
next
  case (Cons c cs)
  show ?case
  proof (cases "clip_is_midi c")
    case False
    with Cons.prems have "clips_loop ppq ti tn cs pc = Inr (pats, items, n)" by simp
    from Cons.IH [OF this] False show ?thesis by simp
  next
    case True
    with Cons.prems obtain pat pats' items' item where
      w: "write_pattern ppq pc ti tn c = Inr pat"
      and r: "clips_loop ppq ti tn cs (pc + 1) = Inr (pats', items', n)"
      and p: "pats = pat # pats'"
      by (auto simp: then_do_Inr Let_def)
    from Cons.IH [OF r] have n: "n = pc + 1 + int (length (filter clip_is_midi cs))"
      and l: "length pats' = length (filter clip_is_midi cs)"
      and a: "\<forall>k<length pats'.
           pattern_written ppq (pc + 1 + int k) (ti, tn, filter clip_is_midi cs ! k) (pats' ! k)"
      by simp_all
    have "pattern_written ppq (pc + int k) (ti, tn, filter clip_is_midi (c # cs) ! k) (pats ! k)"
      if "k < length pats" for k
    proof (cases k)
      case 0
      with w p True show ?thesis by (simp add: pattern_written_def)
    next
      case (Suc j)
      with that p have "j < length pats'" by simp
      with a have "pattern_written ppq (pc + 1 + int j) (ti, tn, filter clip_is_midi cs ! j) (pats' ! j)"
        by blast
      with Suc p True show ?thesis by (simp add: add.commute add.left_commute)
    qed
    with n l p True show ?thesis by simp
  qed
qed

lemma tracks_loop_spec:
  "tracks_loop ppq ti ts pc = Inr (pats, items, n) \<Longrightarrow>
     n = pc + int (length (midi_clips_from ti ts))
     \<and> length pats = length (midi_clips_from ti ts)
     \<and> (\<forall>k<length pats. pattern_written ppq (pc + int k) (midi_clips_from ti ts ! k) (pats ! k))"
proof (induction ts arbitrary: ti pc pats items n)
  case Nil
  then show ?case by simp
next
  case (Cons t ts)
  from Cons.prems obtain p1 i1 n1 p2 i2 where
    c: "clips_loop ppq ti (track_name t) (track_clips t) pc = Inr (p1, i1, n1)"
    and r: "tracks_loop ppq (ti + 1) ts n1 = Inr (p2, i2, n)"
    and p: "pats = p1 @ p2"
    by (auto simp: then_do_Inr)
  let ?m1 = "filter clip_is_midi (track_clips t)"
  from clips_loop_spec [OF c] have n1: "n1 = pc + int (length ?m1)"
    and l1: "length p1 = length ?m1"
    and a1: "\<forall>k<length p1. pattern_written ppq (pc + int k) (ti, track_name t, ?m1 ! k) (p1 ! k)"
    by simp_all
  from Cons.IH [OF r] have n: "n = n1 + int (length (midi_clips_from (ti + 1) ts))"
    and l2: "length p2 = length (midi_clips_from (ti + 1) ts)"
    and a2: "\<forall>k<length p2.
      pattern_written ppq (n1 + int k) (midi_clips_from (ti + 1) ts ! k) (p2 ! k)"
    by simp_all
  have "pattern_written ppq (pc + int k) (midi_clips_from ti (t # ts) ! k) (pats ! k)"
    if "k < length pats" for k
  proof (cases "k < length p1")
    case True
    with a1 l1 p show ?thesis by (simp add: nth_append)
  next
    case False
    then obtain j where j: "k = length p1 + j" using le_Suc_ex not_less by blast
    with that p have "j < length p2" by simp
    with a2 have "pattern_written ppq (n1 + int j) (midi_clips_from (ti + 1) ts ! j) (p2 ! j)"
      by blast
    with j l1 n1 p show ?thesis by (simp add: nth_append add.assoc)
  qed
  with n n1 l1 l2 p show ?case by simp
qed

lemma plugin_state_event_ids:
  "(\<forall>e\<in>set (plugin_state_event b). event_id e = 205) \<and> length (plugin_state_event b) \<le> 1"
  by (simp add: plugin_state_event_def)

lemma channel_plugin_state_ids:
  assumes "channel_plugin_state pack_f track = Inr evs"
  shows "(\<forall>e\<in>set evs. event_id e = 205) \<and> length evs \<le> 1"
proof -
  from assms have "evs = [] \<or> (\<exists>b. evs = plugin_state_event b)"
    unfolding channel_plugin_state_def Let_def
    by (auto simp: then_do_Inr split: option.splits if_splits)
  then show ?thesis using plugin_state_event_ids by auto
qed

lemma write_channel_Inr:
  assumes "write_channel pack_f idx track = Inr evs"
  shows "\<exists>idx_bytes name_bytes vol pan plugin_events.
     pack_H idx = Inr idx_bytes
     \<and> channel_plugin_state pack_f track = Inr plugin_events
     \<and> evs = [Fixed 64 idx_bytes, Var 203 name_bytes, Fixed 33 [vol], Fixed 34 [pan]]
             @ plugin_events"
  using assms unfolding write_channel_def Let_def then_do_Inr by blast

lemma write_channel_ids:
  assumes "write_channel pack_f idx track = Inr evs"
  shows "\<forall>e\<in>set evs. event_id e \<in> {64, 203, 33, 34, 205}"
proof -
  from write_channel_Inr [OF assms] obtain idx_bytes name_bytes vol pan plugin_events where
    p: "channel_plugin_state pack_f track = Inr plugin_events"
    and e: "evs = [Fixed 64 idx_bytes, Var 203 name_bytes, Fixed 33 [vol], Fixed 34 [pan]]
             @ plugin_events" by blast
  from channel_plugin_state_ids [OF p] show ?thesis unfolding e by auto
qed

lemma channels_loop_spec:
  "fst (channels_loop pack_f idx ts) = Inr chans \<Longrightarrow>
     length chans = length ts
     \<and> (\<forall>k<length ts.
           write_channel pack_f (idx + int k) (normalize_track_plugins (ts ! k)) = Inr (chans ! k))
     \<and> snd (channels_loop pack_f idx ts) = map normalize_track_plugins ts"
proof (induction ts arbitrary: idx chans)
  case Nil
  then show ?case by simp
next
  case (Cons t ts)
  from Cons.prems obtain chan rest where
    w: "write_channel pack_f idx (normalize_track_plugins t) = Inr chan"
    and r: "fst (channels_loop pack_f (idx + 1) ts) = Inr rest"
    and c: "chans = chan # rest"
    by (auto simp: Let_def then_do_Inr split_def split: sum.splits)
  from Cons.IH [OF r] have l: "length rest = length ts"
    and a: "\<forall>k<length ts.
      write_channel pack_f (idx + 1 + int k) (normalize_track_plugins (ts ! k)) = Inr (rest ! k)"
    and s: "snd (channels_loop pack_f (idx + 1) ts) = map normalize_track_plugins ts"
    by simp_all
  have "write_channel pack_f (idx + int k) (normalize_track_plugins ((t # ts) ! k))
          = Inr (chans ! k)" if "k < length (t # ts)" for k
  proof (cases k)
    case 0
    with w c show ?thesis by simp
  next
    case (Suc j)
    with that a c show ?thesis by (simp add: add.commute add.left_commute)
  qed
  moreover have "snd (channels_loop pack_f idx (t # ts)) = map normalize_track_plugins (t # ts)"
    using w s by (simp add: Let_def split_def)
  ultimately show ?case using l c by simp
qed

lemma channels_loop_frame:
  "length (snd (channels_loop pack_f idx ts)) = length ts
   \<and> (\<forall>k<length ts. snd (channels_loop pack_f idx ts) ! k = ts ! k
          \<or> snd (channels_loop pack_f idx ts) ! k = normalize_track_plugins (ts ! k))"
proof (induction ts arbitrary: idx)
  case Nil
  then show ?case by simp
next
  case (Cons t ts)
  show ?case
  proof (cases "write_channel pack_f idx (normalize_track_plugins t)")
    case (Inl e)
    then have "snd (channels_loop pack_f idx (t # ts)) = normalize_track_plugins t # ts"
      by (simp add: Let_def)
    then show ?thesis by (auto simp: nth_Cons split: nat.splits)
  next
    case (Inr chan)
    then have "snd (channels_loop pack_f idx (t # ts))
        = normalize_track_plugins t # snd (channels_loop pack_f (idx + 1) ts)"
      by (simp add: Let_def split_def)
    with Cons.IH [of "idx + 1"] show ?thesis by (auto simp: nth_Cons split: nat.splits)
  qed
qed

lemma normalize_racks_frame:
  "track_name (normalize_racks t rs) = track_name t
   \<and> track_color (normalize_racks t rs) = track_color t
   \<and> track_volume (normalize_racks t rs) = track_volume t
   \<and> track_pan (normalize_racks t rs) = track_pan t
   \<and> track_muted (normalize_racks t rs) = track_muted t
   \<and> track_solo (normalize_racks t rs) = track_solo t
   \<and> track_clips (normalize_racks t rs) = track_clips t
   \<and> track_racks (normalize_racks t rs) = track_racks t"
  by (induction rs) simp_all

lemma normalize_frame:
  "track_name (normalize_track_plugins t) = track_name t
   \<and> track_color (normalize_track_plugins t) = track_color t
   \<and> track_volume (normalize_track_plugins t) = track_volume t
   \<and> track_pan (normalize_track_plugins t) = track_pan t
   \<and> track_muted (normalize_track_plugins t) = track_muted t
   \<and> track_solo (normalize_track_plugins t) = track_solo t
   \<and> track_clips (normalize_track_plugins t) = track_clips t
   \<and> track_racks (normalize_track_plugins t) = track_racks t"
  using normalize_racks_frame [of t "track_racks t"] by (simp add: normalize_track_plugins_def)

lemma midi_clips_from_normalize:
  "midi_clips_from i (map normalize_track_plugins ts) = midi_clips_from i ts"
  by (induction ts arbitrary: i) (simp_all add: normalize_frame)

lemma build_flp_stream_Inr:
  assumes "fst (build_flp_stream pack_f ppq transproj) = Inr st"
  shows "\<exists>header globals chans pats items n playlist.
      flp_head ppq transproj = Inr (header, globals)
      \<and> fst (channels_loop pack_f 0 (proj_tracks transproj)) = Inr chans
      \<and> tracks_loop ppq 0 (snd (channels_loop pack_f 0 (proj_tracks transproj))) 0
          = Inr (pats, items, n)
      \<and> write_playlist items = Inr playlist
      \<and> st = \<lparr>header_bytes = header, global_events = globals, channel_records = chans,
               pattern_records = pats, playlist_events = playlist\<rparr>"
  using assms unfolding build_flp_stream_def Let_def split_def
  by (auto simp: then_do_Inr split: sum.splits)

lemma flp_head_Inr:
  assumes "flp_head ppq transproj = Inr (header, globals)"
  shows "\<exists>project_id tempo_bytes.
      pack_H (py_int (proj_tempo transproj)) = Inr tempo_bytes
      \<and> globals = [Var 199 (string_payload ''21.0.3''), Fixed 156 project_id, Fixed 66 tempo_bytes]
          @ (if proj_name transproj \<noteq> [] then [Var 206 (utf16le_payload (proj_name transproj))]
             else [])"
  using assms unfolding flp_head_def then_do_Inr by blast

lemma write_playlist_ids:
  "write_playlist items = Inr evs \<Longrightarrow> \<forall>e\<in>set evs. event_id e = 224"
  by (auto simp: write_playlist_def then_do_Inr split: if_splits)

lemma write_pattern_shape:
  assumes "write_pattern ppq pattern_idx track_idx trk_name clip = Inr evs"
  shows "\<exists>idx_bytes rest. evs = Fixed 65 idx_bytes # rest
      \<and> pack_H (pattern_idx + 1) = Inr idx_bytes
      \<and> (\<forall>e\<in>set rest. event_id e \<in> {193, 203})"
  using assms unfolding write_pattern_def Let_def then_do_Inr by auto

lemma field_pack_H: "pack_H v = Inr bs \<Longrightarrow> field bs 0 2 = v"
  by (auto simp: pack_H_def field_def split: if_splits)

lemma filter_concat_heads:
  "(\<And>p. p \<in> set pats \<Longrightarrow> \<exists>h rest. p = h # rest \<and> P h \<and> (\<forall>e\<in>set rest. \<not> P e))
   \<Longrightarrow> filter P (concat pats) = map hd pats"
proof (induction pats)
  case Nil
  then show ?case by simp
next
  case (Cons p pats)
  from Cons.prems [of p] obtain h rest where "p = h # rest" "P h" "\<forall>e\<in>set rest. \<not> P e"
    by auto
  moreover have "filter P (concat pats) = map hd pats"
    by (rule Cons.IH) (simp add: Cons.prems)
  ultimately show ?case by (simp add: filter_empty_conv)
qed

lemma filter_concat_none:
  "(\<And>p. p \<in> set xss \<Longrightarrow> \<forall>e\<in>set p. \<not> P e) \<Longrightarrow> filter P (concat xss) = []"
  by (induction xss) (auto simp: filter_empty_conv)

lemma stream_parts:
  assumes "fst (build_flp_stream pack_f ppq transproj) = Inr st"
  shows "(\<exists>project_id tempo_bytes.
            pack_H (py_int (proj_tempo transproj)) = Inr tempo_bytes
          \<and> global_events st =
              [Var 199 (string_payload ''21.0.3''), Fixed 156 project_id, Fixed 66 tempo_bytes]
              @ (if proj_name transproj \<noteq> []
                 then [Var 206 (utf16le_payload (proj_name transproj))] else []))
    \<and> length (channel_records st) = length (proj_tracks transproj)
    \<and> (\<forall>k<length (proj_tracks transproj).
          write_channel pack_f (int k) (normalize_track_plugins (proj_tracks transproj ! k))
            = Inr (channel_records st ! k))
    \<and> length (pattern_records st) = length (midi_clips (proj_tracks transproj))
    \<and> (\<forall>k<length (pattern_records st).
          pattern_written ppq (int k) (midi_clips (proj_tracks transproj) ! k)
            (pattern_records st ! k))
    \<and> (\<forall>e\<in>set (playlist_events st). event_id e = 224)"
proof -
  from build_flp_stream_Inr [OF assms] obtain header globals chans pats items n playlist where
    h: "flp_head ppq transproj = Inr (header, globals)"
    and c: "fst (channels_loop pack_f 0 (proj_tracks transproj)) = Inr chans"
    and t: "tracks_loop ppq 0 (snd (channels_loop pack_f 0 (proj_tracks transproj))) 0
          = Inr (pats, items, n)"
    and p: "write_playlist items = Inr playlist"
    and st: "st = \<lparr>header_bytes = header, global_events = globals, channel_records = chans,
               pattern_records = pats, playlist_events = playlist\<rparr>"
    by blast
  from channels_loop_spec [OF c] have cl: "length chans = length (proj_tracks transproj)"
    and ca: "\<forall>k<length (proj_tracks transproj).
          write_channel pack_f (0 + int k) (normalize_track_plugins (proj_tracks transproj ! k))
            = Inr (chans ! k)"
    and cs: "snd (channels_loop pack_f 0 (proj_tracks transproj))
          = map normalize_track_plugins (proj_tracks transproj)"
    by simp_all
  from tracks_loop_spec [OF t]
  have pl: "length pats = length (midi_clips (proj_tracks transproj))"
    and pa: "\<forall>k<length pats.
          pattern_written ppq (0 + int k) (midi_clips (proj_tracks transproj) ! k) (pats ! k)"
    unfolding cs midi_clips_from_normalize midi_clips_def by simp_all
  from flp_head_Inr [OF h] write_playlist_ids [OF p] cl ca pl pa show ?thesis
    unfolding st by simp
qed

text \<open>
  C3. Whenever \<open>_build_flp_binary\<close> returns, its bytes are the header, the data tag, the
  size and the encodings of the events of the stream, and in that stream: the third event
  is the tempo event (id 66, carrying \<open>int(tempo)\<close>), preceded only by the version and
  project-id events and followed by the optional title, then the channel records, then
  the pattern records, then the playlist; it is the only event with id 66; there is one
  channel record per track, each starting with its channel-start event (id 64), so the
  tempo event precedes them all; and no event of a channel record, of a pattern record or
  of the playlist has id 66.
\<close>

theorem single_tempo_event:
  "(fst (build_flp_stream pack_f ppq transproj) = Inr st \<longrightarrow>
      (\<exists>version project_id tempo_bytes title.
          all_events st =
            [Var 199 version, Fixed 156 project_id, Fixed 66 tempo_bytes] @ title
            @ concat (channel_records st) @ concat (pattern_records st) @ playlist_events st
        \<and> field tempo_bytes 0 2 = py_int (proj_tempo transproj)
        \<and> (\<forall>e\<in>set title. event_id e = 206))
      \<and> length (filter (\<lambda>e. event_id e = 66) (all_events st)) = 1
      \<and> length (channel_records st) = length (proj_tracks transproj)
      \<and> (\<forall>c\<in>set (channel_records st).
            c \<noteq> [] \<and> event_id (hd c) = 64 \<and> (\<forall>e\<in>set c. event_id e \<noteq> 66))
      \<and> (\<forall>p\<in>set (pattern_records st).
            p \<noteq> [] \<and> event_id (hd p) = 65 \<and> (\<forall>e\<in>set p. event_id e \<noteq> 66))
      \<and> (\<forall>e\<in>set (playlist_events st). event_id e \<noteq> 66))
   \<and> (fst (build_flp_binary pack_f ppq transproj) = Inr bytes \<longrightarrow>
      (\<exists>st data_size. fst (build_flp_stream pack_f ppq transproj) = Inr st
         \<and> bytes = header_bytes st @ ascii ''FLdt'' @ data_size
                   @ concat (map encode_event (all_events st))))"
proof (intro conjI impI)
  assume b: "fst (build_flp_binary pack_f ppq transproj) = Inr bytes"
  then show "\<exists>st data_size. fst (build_flp_stream pack_f ppq transproj) = Inr st
         \<and> bytes = header_bytes st @ ascii ''FLdt'' @ data_size
                   @ concat (map encode_event (all_events st))"
    unfolding build_flp_binary_def stream_bytes_def Let_def split_def
    by (auto simp: then_do_Inr)
next
  assume a: "fst (build_flp_stream pack_f ppq transproj) = Inr st"
  from stream_parts [OF a] obtain project_id tempo_bytes where
    tb: "pack_H (py_int (proj_tempo transproj)) = Inr tempo_bytes"
    and g: "global_events st =
              [Var 199 (string_payload ''21.0.3''), Fixed 156 project_id, Fixed 66 tempo_bytes]
              @ (if proj_name transproj \<noteq> []
                 then [Var 206 (utf16le_payload (proj_name transproj))] else [])"
    and cl: "length (channel_records st) = length (proj_tracks transproj)"
    and ca: "\<forall>k<length (proj_tracks transproj).
          write_channel pack_f (int k) (normalize_track_plugins (proj_tracks transproj ! k))
            = Inr (channel_records st ! k)"
    and pa: "\<forall>k<length (pattern_records st).
          pattern_written ppq (int k) (midi_clips (proj_tracks transproj) ! k)
            (pattern_records st ! k)"
    and pl: "\<forall>e\<in>set (playlist_events st). event_id e = 224"
    by blast
  let ?title = "if proj_name transproj \<noteq> []
                 then [Var 206 (utf16le_payload (proj_name transproj))] else []"
  have chan: "c \<noteq> [] \<and> event_id (hd c) = 64 \<and> (\<forall>e\<in>set c. event_id e \<noteq> 66)"
    if "c \<in> set (channel_records st)" for c
  proof -
    from that cl obtain k where k: "k < length (proj_tracks transproj)"
      and c: "c = channel_records st ! k" by (auto simp: in_set_conv_nth)
    with ca have w: "write_channel pack_f (int k)
        (normalize_track_plugins (proj_tracks transproj ! k)) = Inr c" by simp
    from write_channel_Inr [OF w] have "c \<noteq> [] \<and> event_id (hd c) = 64" by auto
    moreover from write_channel_ids [OF w] have "\<forall>e\<in>set c. event_id e \<noteq> 66" by auto
    ultimately show ?thesis by blast
  qed
  have pat: "p \<noteq> [] \<and> event_id (hd p) = 65 \<and> (\<forall>e\<in>set p. event_id e \<noteq> 66)"
    if "p \<in> set (pattern_records st)" for p
  proof -
    from that obtain k where k: "k < length (pattern_records st)"
      and p: "p = pattern_records st ! k" by (auto simp: in_set_conv_nth)
    with pa have "pattern_written ppq (int k) (midi_clips (proj_tracks transproj) ! k) p"
      by simp
    then obtain ti tn c where "write_pattern ppq (int k) ti tn c = Inr p"
      by (auto simp: pattern_written_def split: prod.splits)
    from write_pattern_shape [OF this] show ?thesis by fastforce
  qed
  have f1: "filter (\<lambda>e. event_id e = 66) (concat (channel_records st)) = []"
    by (rule filter_concat_none) (use chan in blast)
  have f2: "filter (\<lambda>e. event_id e = 66) (concat (pattern_records st)) = []"
    by (rule filter_concat_none) (use pat in blast)
  have f3: "filter (\<lambda>e. event_id e = 66) (playlist_events st) = []"
    using pl by (auto simp: filter_empty_conv)
  show "length (filter (\<lambda>e. event_id e = 66) (all_events st)) = 1"
    unfolding all_events_def g by (simp add: f1 f2 f3)
  show "length (channel_records st) = length (proj_tracks transproj)" by (rule cl)
  show "\<forall>c\<in>set (channel_records st).
            c \<noteq> [] \<and> event_id (hd c) = 64 \<and> (\<forall>e\<in>set c. event_id e \<noteq> 66)"
    using chan by blast
  show "\<forall>p\<in>set (pattern_records st).
            p \<noteq> [] \<and> event_id (hd p) = 65 \<and> (\<forall>e\<in>set p. event_id e \<noteq> 66)"
    using pat by blast
  show "\<forall>e\<in>set (playlist_events st). event_id e \<noteq> 66" using pl by auto
  have "all_events st =
            [Var 199 (string_payload ''21.0.3''), Fixed 156 project_id, Fixed 66 tempo_bytes]
            @ ?title
            @ concat (channel_records st) @ concat (pattern_records st) @ playlist_events st"
    unfolding all_events_def g by simp
  moreover have "field tempo_bytes 0 2 = py_int (proj_tempo transproj)"
    by (rule field_pack_H [OF tb])
  moreover have "\<forall>e\<in>set ?title. event_id e = 206" by simp
  ultimately show "\<exists>version project_id tempo_bytes title.
          all_events st =
            [Var 199 version, Fixed 156 project_id, Fixed 66 tempo_bytes] @ title
            @ concat (channel_records st) @ concat (pattern_records st) @ playlist_events st
        \<and> field tempo_bytes 0 2 = py_int (proj_tempo transproj)
        \<and> (\<forall>e\<in>set title. event_id e = 206)"
    by blast
qed

lemma upto_nth_one: "k < n \<Longrightarrow> [1..int n] ! k = 1 + int k"
  by (simp add: nth_upto)

text \<open>
  C4. Whenever \<open>_build_flp_binary\<close> returns, there is exactly one pattern record per MIDI
  clip of the project (audio clips give none), the \<open>k\<close>-th record being the one written
  for the \<open>k\<close>-th MIDI clip in track order, then clip order; and the indices carried by
  the pattern-start events (id 65) of the whole stream are, in emission order, exactly
  \<open>1, 2, ..., n\<close> for \<open>n\<close> MIDI clips.
\<close>

theorem pattern_per_midi_clip:
  "fst (build_flp_stream pack_f ppq transproj) = Inr st \<longrightarrow>
     length (pattern_records st) = length (midi_clips (proj_tracks transproj))
     \<and> (\<forall>k<length (pattern_records st).
           pattern_written ppq (int k) (midi_clips (proj_tracks transproj) ! k)
             (pattern_records st ! k))
     \<and> map (\<lambda>e. field (event_payload e) 0 2) (filter (\<lambda>e. event_id e = 65) (all_events st))
         = [1..int (length (midi_clips (proj_tracks transproj)))]"
proof (intro impI)
  assume a: "fst (build_flp_stream pack_f ppq transproj) = Inr st"
  let ?mc = "midi_clips (proj_tracks transproj)"
  let ?P = "\<lambda>e. event_id e = 65"
  from stream_parts [OF a] obtain project_id tempo_bytes where
    g: "global_events st =
              [Var 199 (string_payload ''21.0.3''), Fixed 156 project_id, Fixed 66 tempo_bytes]
              @ (if proj_name transproj \<noteq> []
                 then [Var 206 (utf16le_payload (proj_name transproj))] else [])"
    and cl: "length (channel_records st) = length (proj_tracks transproj)"
    and ca: "\<forall>k<length (proj_tracks transproj).
          write_channel pack_f (int k) (normalize_track_plugins (proj_tracks transproj ! k))
            = Inr (channel_records st ! k)"
    and l: "length (pattern_records st) = length ?mc"
    and pa: "\<forall>k<length (pattern_records st).
          pattern_written ppq (int k) (?mc ! k) (pattern_records st ! k)"
    and pl: "\<forall>e\<in>set (playlist_events st). event_id e = 224"
    by blast
  have shape: "\<exists>idx_bytes rest. pattern_records st ! k = Fixed 65 idx_bytes # rest
      \<and> pack_H (int k + 1) = Inr idx_bytes
      \<and> (\<forall>e\<in>set rest. event_id e \<in> {193, 203})"
    if "k < length (pattern_records st)" for k
  proof -
    from that pa have "pattern_written ppq (int k) (?mc ! k) (pattern_records st ! k)" by simp
    then obtain ti tn c where "write_pattern ppq (int k) ti tn c = Inr (pattern_records st ! k)"
      by (auto simp: pattern_written_def split: prod.splits)
    from write_pattern_shape [OF this] show ?thesis .
  qed
  have f0: "filter ?P (global_events st) = []" unfolding g by simp
  have f1: "filter ?P (concat (channel_records st)) = []"
  proof (rule filter_concat_none)
    fix c assume "c \<in> set (channel_records st)"
    with cl obtain k where "k < length (proj_tracks transproj)" "c = channel_records st ! k"
      by (auto simp: in_set_conv_nth)
    with ca have "write_channel pack_f (int k)
        (normalize_track_plugins (proj_tracks transproj ! k)) = Inr c" by simp
    from write_channel_ids [OF this] show "\<forall>e\<in>set c. \<not> event_id e = 65" by auto
  qed
  have f2: "filter ?P (concat (pattern_records st)) = map hd (pattern_records st)"
  proof (rule filter_concat_heads)
    fix p assume "p \<in> set (pattern_records st)"
    then obtain k where "k < length (pattern_records st)" "p = pattern_records st ! k"
      by (auto simp: in_set_conv_nth)
    with shape [of k] show "\<exists>h rest. p = h # rest \<and> event_id h = 65
        \<and> (\<forall>e\<in>set rest. \<not> event_id e = 65)" by fastforce
  qed
  have f3: "filter ?P (playlist_events st) = []" using pl by (auto simp: filter_empty_conv)
  have f: "filter ?P (all_events st) = map hd (pattern_records st)"
    unfolding all_events_def by (simp add: f0 f1 f2 f3)
  have "map (\<lambda>e. field (event_payload e) 0 2) (map hd (pattern_records st)) = [1..int (length ?mc)]"
  proof (rule nth_equalityI)
    show "length (map (\<lambda>e. field (event_payload e) 0 2) (map hd (pattern_records st)))
        = length [1..int (length ?mc)]" by (simp add: l)
  next
    fix k assume "k < length (map (\<lambda>e. field (event_payload e) 0 2) (map hd (pattern_records st)))"
    then have k: "k < length (pattern_records st)" by simp
    from shape [OF k] obtain idx_bytes rest where
      "pattern_records st ! k = Fixed 65 idx_bytes # rest" "pack_H (int k + 1) = Inr idx_bytes"
      by blast
    then have "field (event_payload (hd (pattern_records st ! k))) 0 2 = int k + 1"
      by (simp add: field_pack_H)
    with k l show "map (\<lambda>e. field (event_payload e) 0 2) (map hd (pattern_records st)) ! k
        = [1..int (length ?mc)] ! k"
      by (simp add: upto_nth_one)
  qed
  with l pa f show "length (pattern_records st) = length ?mc
     \<and> (\<forall>k<length (pattern_records st).
           pattern_written ppq (int k) (?mc ! k) (pattern_records st ! k))
     \<and> map (\<lambda>e. field (event_payload e) 0 2) (filter (\<lambda>e. event_id e = 65) (all_events st))
         = [1..int (length ?mc)]" by simp
qed

lemma not_isl_Inr: "\<not> isl x \<Longrightarrow> \<exists>y. x = Inr y"
  by (cases x) simp_all

lemma demo_stream_ok: "\<not> isl (fst (build_flp_stream pack_f_zero 96 demo_project))"
  by code_simp

lemma demo_binary_ok: "\<not> isl (fst (build_flp_binary pack_f_zero 96 demo_project))"
  by code_simp

lemma demo_counts:
  "length (proj_tracks demo_project) = 2"
  "length (midi_clips (proj_tracks demo_project)) = 2"
  "py_int (proj_tempo demo_project) = 128"
  by code_simp+

theorem single_tempo_event_witness:
  "(\<exists>st version project_id tempo_bytes title.
      fst (build_flp_stream pack_f_zero 96 demo_project) = Inr st
      \<and> all_events st =
            [Var 199 version, Fixed 156 project_id, Fixed 66 tempo_bytes] @ title
            @ concat (channel_records st) @ concat (pattern_records st) @ playlist_events st
      \<and> field tempo_bytes 0 2 = 128
      \<and> length (filter (\<lambda>e. event_id e = 66) (all_events st)) = 1
      \<and> length (channel_records st) = 2)
   \<and> (\<exists>bytes st data_size.
      fst (build_flp_binary pack_f_zero 96 demo_project) = Inr bytes
      \<and> fst (build_flp_stream pack_f_zero 96 demo_project) = Inr st
      \<and> bytes = header_bytes st @ ascii ''FLdt'' @ data_size
                @ concat (map encode_event (all_events st)))"
proof -
  from not_isl_Inr [OF demo_stream_ok] obtain st where
    st: "fst (build_flp_stream pack_f_zero 96 demo_project) = Inr st" ..
  from not_isl_Inr [OF demo_binary_ok] obtain bytes where
    b: "fst (build_flp_binary pack_f_zero 96 demo_project) = Inr bytes" ..
  note t = single_tempo_event [of pack_f_zero 96 demo_project st bytes]
  from t [THEN conjunct1, rule_format, OF st]
  have 1: "\<exists>version project_id tempo_bytes title.
          all_events st =
            [Var 199 version, Fixed 156 project_id, Fixed 66 tempo_bytes] @ title
            @ concat (channel_records st) @ concat (pattern_records st) @ playlist_events st
        \<and> field tempo_bytes 0 2 = py_int (proj_tempo demo_project)
        \<and> (\<forall>e\<in>set title. event_id e = 206)"
    and 2: "length (filter (\<lambda>e. event_id e = 66) (all_events st)) = 1"
    and 3: "length (channel_records st) = length (proj_tracks demo_project)"
    by simp_all
  from 1 obtain version project_id tempo_bytes title where
    4: "all_events st =
            [Var 199 version, Fixed 156 project_id, Fixed 66 tempo_bytes] @ title
            @ concat (channel_records st) @ concat (pattern_records st) @ playlist_events st"
    and 5: "field tempo_bytes 0 2 = py_int (proj_tempo demo_project)"
    by blast
  from t [THEN conjunct2, rule_format, OF b] obtain st' data_size where
    6: "fst (build_flp_stream pack_f_zero 96 demo_project) = Inr st'"
    and 7: "bytes = header_bytes st' @ ascii ''FLdt'' @ data_size
                @ concat (map encode_event (all_events st'))" by blast
  have A: "\<exists>st version project_id tempo_bytes title.
      fst (build_flp_stream pack_f_zero 96 demo_project) = Inr st
      \<and> all_events st =
            [Var 199 version, Fixed 156 project_id, Fixed 66 tempo_bytes] @ title
            @ concat (channel_records st) @ concat (pattern_records st) @ playlist_events st
      \<and> field tempo_bytes 0 2 = 128
      \<and> length (filter (\<lambda>e. event_id e = 66) (all_events st)) = 1
      \<and> length (channel_records st) = 2"
    using st 4 5 2 3 unfolding demo_counts
    by (intro exI [of _ st] exI [of _ version] exI [of _ project_id] exI [of _ tempo_bytes]
        exI [of _ title] conjI)
  have B: "\<exists>bytes st data_size.
      fst (build_flp_binary pack_f_zero 96 demo_project) = Inr bytes
      \<and> fst (build_flp_stream pack_f_zero 96 demo_project) = Inr st
      \<and> bytes = header_bytes st @ ascii ''FLdt'' @ data_size
                @ concat (map encode_event (all_events st))"
    using b 6 7 by (intro exI [of _ bytes] exI [of _ st'] exI [of _ data_size] conjI)
  from A B show ?thesis ..
qed

theorem pattern_per_midi_clip_witness:
  "\<exists>st. fst (build_flp_stream pack_f_zero 96 demo_project) = Inr st
     \<and> length (pattern_records st) = 2
     \<and> pattern_written 96 1 (midi_clips (proj_tracks demo_project) ! 1) (pattern_records st ! 1)
     \<and> map (\<lambda>e. field (event_payload e) 0 2) (filter (\<lambda>e. event_id e = 65) (all_events st))
         = [1, 2]"
proof -
  from not_isl_Inr [OF demo_stream_ok] obtain st where
    st: "fst (build_flp_stream pack_f_zero 96 demo_project) = Inr st" ..
  have u: "[1..int 2] = [1, 2]" by (simp add: upto_rec1)
  from pattern_per_midi_clip [of pack_f_zero 96 demo_project st, rule_format, OF st]
  have 1: "length (pattern_records st) = 2"
    and 2: "\<forall>k<length (pattern_records st).
       pattern_written 96 (int k) (midi_clips (proj_tracks demo_project) ! k)
         (pattern_records st ! k)"
    and 3: "map (\<lambda>e. field (event_payload e) 0 2) (filter (\<lambda>e. event_id e = 65) (all_events st))
         = [1, 2]"
    unfolding demo_counts u by simp_all
  from 2 [rule_format, of 1] 1 have
    "pattern_written 96 1 (midi_clips (proj_tracks demo_project) ! 1) (pattern_records st ! 1)"
    by simp
  with st 1 3 show ?thesis by (intro exI [of _ st] conjI)
qed

section \<open>What the write does to the project\<close>

lemma normalize_racks_none:
  "find instrument_group rs = None \<Longrightarrow> normalize_racks t rs = t"
  by (induction rs) (auto simp: instrument_group_def split: if_splits)

lemma normalize_racks_some:
  "find instrument_group rs = Some r \<Longrightarrow>
   normalize_racks t rs =
     t\<lparr>track_instrument := Some (hd (rack_plugins r)),
       track_effects := track_effects t @ tl (rack_plugins r)\<rparr>"
proof (induction rs)
  case Nil
  then show ?case by simp
next
  case (Cons a rs)
  show ?case
  proof (cases "instrument_group a")
    case True
    with Cons.prems have "a = r" by simp
    with True show ?thesis
      by (cases "rack_plugins r") (auto simp: instrument_group_def)
  next
    case False
    with Cons have "normalize_racks t rs =
      t\<lparr>track_instrument := Some (hd (rack_plugins r)),
        track_effects := track_effects t @ tl (rack_plugins r)\<rparr>" by simp
    with False show ?thesis by (auto simp: instrument_group_def)
  qed
qed

lemma normalize_unchanged:
  "track_instrument t \<noteq> None \<or> find instrument_group (track_racks t) = None
   \<Longrightarrow> normalize_track_plugins t = t"
  by (auto simp: normalize_track_plugins_def normalize_racks_none)

lemma normalize_changed:
  "track_instrument t = None \<Longrightarrow> find instrument_group (track_racks t) = Some r \<Longrightarrow>
   normalize_track_plugins t =
     t\<lparr>track_instrument := Some (hd (rack_plugins r)),
       track_effects := track_effects t @ tl (rack_plugins r)\<rparr>"
  by (simp add: normalize_track_plugins_def normalize_racks_some)

lemma build_flp_stream_project:
  "snd (build_flp_stream pack_f ppq transproj) = transproj
   \<or> snd (build_flp_stream pack_f ppq transproj)
       = transproj\<lparr>proj_tracks := snd (channels_loop pack_f 0 (proj_tracks transproj))\<rparr>"
  unfolding build_flp_stream_def Let_def split_def
  by (simp split: sum.splits)

lemma build_flp_stream_project_Inr:
  "fst (build_flp_stream pack_f ppq transproj) = Inr st \<Longrightarrow>
   snd (build_flp_stream pack_f ppq transproj)
       = transproj\<lparr>proj_tracks := map normalize_track_plugins (proj_tracks transproj)\<rparr>"
proof -
  assume a: "fst (build_flp_stream pack_f ppq transproj) = Inr st"
  from build_flp_stream_Inr [OF a] obtain header globals chans where
    h: "flp_head ppq transproj = Inr (header, globals)"
    and c: "fst (channels_loop pack_f 0 (proj_tracks transproj)) = Inr chans" by blast
  from channels_loop_spec [OF c] have
    "snd (channels_loop pack_f 0 (proj_tracks transproj))
       = map normalize_track_plugins (proj_tracks transproj)" by simp
  with h show ?thesis
    unfolding build_flp_stream_def Let_def split_def by simp
qed

lemma write_flp_snd:
  "snd (write_flp pack_f transproj)
     = snd (build_flp_stream pack_f (if proj_ppq transproj \<noteq> 0 then proj_ppq transproj else 960)
         transproj)"
  by (simp add: write_flp_def build_flp_binary_def split_def Let_def)

lemma write_flp_fst_Inr:
  "fst (write_flp pack_f transproj) = Inr bytes \<Longrightarrow>
   \<exists>st. fst (build_flp_stream pack_f
       (if proj_ppq transproj \<noteq> 0 then proj_ppq transproj else 960) transproj) = Inr st"
  by (auto simp: write_flp_def build_flp_binary_def split_def Let_def then_do_Inr)

lemma after_tracks:
  "length (proj_tracks (snd (write_flp pack_f transproj))) = length (proj_tracks transproj)
   \<and> (\<forall>k<length (proj_tracks transproj).
         proj_tracks (snd (write_flp pack_f transproj)) ! k = proj_tracks transproj ! k
         \<or> proj_tracks (snd (write_flp pack_f transproj)) ! k
             = normalize_track_plugins (proj_tracks transproj ! k))"
proof -
  let ?ppq = "if proj_ppq transproj \<noteq> 0 then proj_ppq transproj else 960"
  from build_flp_stream_project [of pack_f ?ppq transproj]
  show ?thesis
  proof
    assume "snd (build_flp_stream pack_f ?ppq transproj) = transproj"
    then show ?thesis by (simp add: write_flp_snd)
  next
    assume "snd (build_flp_stream pack_f ?ppq transproj)
       = transproj\<lparr>proj_tracks := snd (channels_loop pack_f 0 (proj_tracks transproj))\<rparr>"
    then have "proj_tracks (snd (write_flp pack_f transproj))
        = snd (channels_loop pack_f 0 (proj_tracks transproj))"
      by (simp add: write_flp_snd)
    with channels_loop_frame [of pack_f 0 "proj_tracks transproj"] show ?thesis by simp
  qed
qed

lemma after_fields:
  "proj_name (snd (write_flp pack_f transproj)) = proj_name transproj
   \<and> proj_tempo (snd (write_flp pack_f transproj)) = proj_tempo transproj
   \<and> proj_ppq (snd (write_flp pack_f transproj)) = proj_ppq transproj
   \<and> proj_ableton_version (snd (write_flp pack_f transproj)) = proj_ableton_version transproj
   \<and> proj_is_session_view (snd (write_flp pack_f transproj)) = proj_is_session_view transproj"
proof -
  let ?ppq = "if proj_ppq transproj \<noteq> 0 then proj_ppq transproj else 960"
  from build_flp_stream_project [of pack_f ?ppq transproj]
  show ?thesis unfolding write_flp_snd by (elim disjE) simp_all
qed

text \<open>
  C10 (as the code has it). The write leaves the project's own fields, the number of
  tracks and every track's name, mixer fields, clips (with their notes) and rack list as
  they were. A track that has an instrument, or no instrument-group rack with nested
  plugins, is unchanged altogether. Any other track is either unchanged or normalized (it
  is normalized when the write returns): its instrument becomes the first nested plugin of
  its first such rack and the remaining nested plugins of that rack are appended to its
  effect list.
\<close>

theorem write_frame:
  "proj_name (snd (write_flp pack_f transproj)) = proj_name transproj
   \<and> proj_tempo (snd (write_flp pack_f transproj)) = proj_tempo transproj
   \<and> proj_ppq (snd (write_flp pack_f transproj)) = proj_ppq transproj
   \<and> proj_ableton_version (snd (write_flp pack_f transproj)) = proj_ableton_version transproj
   \<and> proj_is_session_view (snd (write_flp pack_f transproj)) = proj_is_session_view transproj
   \<and> length (proj_tracks (snd (write_flp pack_f transproj))) = length (proj_tracks transproj)
   \<and> (\<forall>k<length (proj_tracks transproj).
         (let t = proj_tracks transproj ! k;
              t' = proj_tracks (snd (write_flp pack_f transproj)) ! k
          in track_name t' = track_name t
             \<and> track_color t' = track_color t
             \<and> track_volume t' = track_volume t
             \<and> track_pan t' = track_pan t
             \<and> track_muted t' = track_muted t
             \<and> track_solo t' = track_solo t
             \<and> track_clips t' = track_clips t
             \<and> track_racks t' = track_racks t
             \<and> (t' = t \<or> t' = normalize_track_plugins t)
             \<and> (track_instrument t \<noteq> None \<or> find instrument_group (track_racks t) = None
                  \<longrightarrow> t' = t)))
   \<and> (fst (write_flp pack_f transproj) = Inr bytes \<longrightarrow>
        proj_tracks (snd (write_flp pack_f transproj))
          = map normalize_track_plugins (proj_tracks transproj))
   \<and> (track_instrument t = None \<and> find instrument_group (track_racks t) = Some r \<longrightarrow>
        normalize_track_plugins t =
          t\<lparr>track_instrument := Some (hd (rack_plugins r)),
            track_effects := track_effects t @ tl (rack_plugins r)\<rparr>)"
proof -
  let ?after = "snd (write_flp pack_f transproj)"
  have tracks: "let t = proj_tracks transproj ! k; t' = proj_tracks ?after ! k
          in track_name t' = track_name t
             \<and> track_color t' = track_color t
             \<and> track_volume t' = track_volume t
             \<and> track_pan t' = track_pan t
             \<and> track_muted t' = track_muted t
             \<and> track_solo t' = track_solo t
             \<and> track_clips t' = track_clips t
             \<and> track_racks t' = track_racks t
             \<and> (t' = t \<or> t' = normalize_track_plugins t)
             \<and> (track_instrument t \<noteq> None \<or> find instrument_group (track_racks t) = None
                  \<longrightarrow> t' = t)"
    if k: "k < length (proj_tracks transproj)" for k
  proof -
    from after_tracks [of pack_f transproj] k
    have d: "proj_tracks ?after ! k = proj_tracks transproj ! k
         \<or> proj_tracks ?after ! k = normalize_track_plugins (proj_tracks transproj ! k)"
      by blast
    then show ?thesis
    proof
      assume "proj_tracks ?after ! k = proj_tracks transproj ! k"
      then show ?thesis by (simp add: Let_def)
    next
      assume n: "proj_tracks ?after ! k = normalize_track_plugins (proj_tracks transproj ! k)"
      show ?thesis
        unfolding Let_def n
        using normalize_frame [of "proj_tracks transproj ! k"]
          normalize_unchanged [of "proj_tracks transproj ! k"]
        by simp
    qed
  qed
  have ok: "proj_tracks ?after = map normalize_track_plugins (proj_tracks transproj)"
    if "fst (write_flp pack_f transproj) = Inr bytes"
  proof -
    from write_flp_fst_Inr [OF that] obtain st where
      "fst (build_flp_stream pack_f
         (if proj_ppq transproj \<noteq> 0 then proj_ppq transproj else 960) transproj) = Inr st" ..
    from build_flp_stream_project_Inr [OF this] show ?thesis by (simp add: write_flp_snd)
  qed
  from after_fields [of pack_f transproj] after_tracks [of pack_f transproj] tracks ok
    normalize_changed [of t r]
  show ?thesis by blast
qed

text \<open>
  C10 as the spec states it fails: the second track of the example project has no
  instrument and no effects before the write; after it, its instrument is the rack's
  first device and its effect list holds the second.
\<close>

theorem write_mutates_counterexample:
  "track_instrument (proj_tracks demo_project ! 1) = None
   \<and> track_effects (proj_tracks demo_project ! 1) = []
   \<and> track_instrument (proj_tracks (snd (write_flp pack_f_zero demo_project)) ! 1)
       = Some \<lparr>plug_name = ''Operator'', plug_manufacturer = ''Ableton'',
                plug_is_instrument = True, plug_device_type = None, plug_vst_id = None,
                plug_parameters = []\<rparr>
   \<and> track_effects (proj_tracks (snd (write_flp pack_f_zero demo_project)) ! 1)
       = [\<lparr>plug_name = ''Reverb'', plug_manufacturer = ''Ableton'',
           plug_is_instrument = True, plug_device_type = None, plug_vst_id = None,
           plug_parameters = []\<rparr>]"
  by code_simp

lemma demo_write_ok: "\<not> isl (fst (write_flp pack_f_zero demo_project))"
  by code_simp

lemma demo_racks:
  "track_instrument (proj_tracks demo_project ! 0) = None"
  "find instrument_group (track_racks (proj_tracks demo_project ! 0)) = None"
  "track_instrument (proj_tracks demo_project ! 1) = None"
  "find instrument_group (track_racks (proj_tracks demo_project ! 1))
     = Some (hd (track_racks (proj_tracks demo_project ! 1)))"
  by code_simp+

theorem write_frame_witness:
  "\<exists>bytes. fst (write_flp pack_f_zero demo_project) = Inr bytes
     \<and> proj_tracks (snd (write_flp pack_f_zero demo_project))
         = map normalize_track_plugins (proj_tracks demo_project)
     \<and> proj_tracks (snd (write_flp pack_f_zero demo_project)) ! 0 = proj_tracks demo_project ! 0
     \<and> track_clips (proj_tracks (snd (write_flp pack_f_zero demo_project)) ! 1)
         = track_clips (proj_tracks demo_project ! 1)
     \<and> normalize_track_plugins (proj_tracks demo_project ! 1) =
         (proj_tracks demo_project ! 1)
           \<lparr>track_instrument :=
              Some (hd (rack_plugins (hd (track_racks (proj_tracks demo_project ! 1))))),
            track_effects := track_effects (proj_tracks demo_project ! 1)
              @ tl (rack_plugins (hd (track_racks (proj_tracks demo_project ! 1))))\<rparr>"
proof -
  from not_isl_Inr [OF demo_write_ok] obtain bytes where
    b: "fst (write_flp pack_f_zero demo_project) = Inr bytes" ..
  note f = write_frame [of pack_f_zero demo_project bytes "proj_tracks demo_project ! 1"
      "hd (track_racks (proj_tracks demo_project ! 1))"]
  from f b have 1: "proj_tracks (snd (write_flp pack_f_zero demo_project))
         = map normalize_track_plugins (proj_tracks demo_project)" by blast
  from f have a: "\<forall>k<length (proj_tracks demo_project).
         (let t = proj_tracks demo_project ! k;
              t' = proj_tracks (snd (write_flp pack_f_zero demo_project)) ! k
          in track_clips t' = track_clips t
             \<and> (track_instrument t \<noteq> None \<or> find instrument_group (track_racks t) = None
                  \<longrightarrow> t' = t))"
    unfolding Let_def by blast
  from a [rule_format, of 0] have 2:
    "proj_tracks (snd (write_flp pack_f_zero demo_project)) ! 0 = proj_tracks demo_project ! 0"
    by (simp add: Let_def demo_counts demo_racks)
  from a [rule_format, of 1] have 3:
    "track_clips (proj_tracks (snd (write_flp pack_f_zero demo_project)) ! 1)
         = track_clips (proj_tracks demo_project ! 1)"
    by (simp add: Let_def demo_counts)
  from f demo_racks(3,4) have 4: "normalize_track_plugins (proj_tracks demo_project ! 1) =
         (proj_tracks demo_project ! 1)
           \<lparr>track_instrument :=
              Some (hd (rack_plugins (hd (track_racks (proj_tracks demo_project ! 1))))),
            track_effects := track_effects (proj_tracks demo_project ! 1)
              @ tl (rack_plugins (hd (track_racks (proj_tracks demo_project ! 1))))\<rparr>"
    by blast
  from b 1 2 3 4 show ?thesis by (intro exI [of _ bytes] conjI)
qed

section \<open>Channel records\<close>

lemma channel_at_most_one_plugin_state:
  assumes "write_channel pack_f idx track = Inr evs"
  shows "length (filter (\<lambda>e. event_id e = 205) evs) \<le> 1"
proof -
  from write_channel_Inr [OF assms] obtain idx_bytes name_bytes vol pan plugin_events where
    p: "channel_plugin_state pack_f track = Inr plugin_events"
    and e: "evs = [Fixed 64 idx_bytes, Var 203 name_bytes, Fixed 33 [vol], Fixed 34 [pan]]
             @ plugin_events" by blast
  from channel_plugin_state_ids [OF p] have "length plugin_events \<le> 1" by simp
  then have "length (filter (\<lambda>e. event_id e = 205) plugin_events) \<le> 1"
    using length_filter_le [of "\<lambda>e. event_id e = 205" plugin_events] by linarith
  then show ?thesis unfolding e by simp
qed

text \<open>
  C5 at a failing input. The track carries MIDI, has no instrument, no drum rack and no
  audio clip, so the default oscillator blob (which is not empty) is the plugin state the
  priority rule selects; but the track has a rack, the \<open>elif track.racks\<close> branch is taken
  and finds no drum rack, the later branches are skipped, and the channel record has no
  plugin-state event (id 205). In every case a channel record has at most one such event
  (\<open>channel_at_most_one_plugin_state\<close>).
\<close>

theorem default_generator_skipped:
  "has_midi fx_rack_track
   \<and> track_instrument fx_rack_track = None
   \<and> find is_drum_rack (track_racks fx_rack_track) = None
   \<and> first_audio_clip fx_rack_track = None
   \<and> normalize_track_plugins fx_rack_track = fx_rack_track
   \<and> write_channel pack_f_zero 0 fx_rack_track =
       Inr [Fixed 64 [0, 0], Var 203 (utf16le_payload ''Keys''), Fixed 33 [100], Fixed 34 [64]]
   \<and> generate pack_f_zero ''3xOsc'' no_kwargs =
       Inr (ascii ''3OSC'' @ [1, 0, 0, 0, 1, 0, 100, 64, 0, 0, 0, 64, 0, 0, 0, 64])"
  by code_simp

theorem default_generator_skipped_witness:
  "\<exists>evs. write_channel pack_f_zero 0 fx_rack_track = Inr evs
     \<and> has_midi fx_rack_track
     \<and> filter (\<lambda>e. event_id e = 205) evs = []"
  using default_generator_skipped by simp

text \<open>
  The writer does not return for every project. An instrument mapped to \<open>Sampler\<close> on a
  track without an audio clip falls through to the generic call, which passes \<open>params\<close> to
  the sampler encoder; that encoder takes no such keyword, and the call raises.
\<close>

lemma sampler_instrument_raises:
  "ableton_to_fl ''OriginalSimpler'' True None = ''Sampler''
   \<and> first_audio_clip simpler_track = None
   \<and> write_channel pack_f_zero 0 simpler_track = Inl TypeError
   \<and> fst (write_flp pack_f_zero (demo_project\<lparr>proj_tracks := [simpler_track]\<rparr>)) = Inl TypeError"
  by code_simp

section \<open>Clip collection\<close>

lemma named_clip_key:
  assumes "first_of (desc_step ''Name'' [clip_elem]) = Some name_elem"
    and "map_of (xml_attrib name_elem) ''Value'' = Some v"
    and "parse_midi_clip float_of int_of clip_elem scene_index = Inr clip"
  shows "clip_name clip = get_clip_name clip_elem"
proof -
  from assms(3) obtain t0 t1 ns where
    "clip = \<lparr>clip_name = (case first_of (desc_step ''Name'' [clip_elem]) of
                    Some name_elem \<Rightarrow> attr_get name_elem ''Value'' ''MIDI Clip''
                  | None \<Rightarrow> ''MIDI Clip''),
             clip_start = t0, clip_duration = t1 - t0,
             clip_notes = concat ns, clip_audio_path = [], clip_is_midi = True,
             clip_scene_index = scene_index\<rparr>"
    unfolding parse_midi_clip_def Let_def by (auto simp: then_do_Inr)
  with assms(1,2) show ?thesis by (simp add: get_clip_name_def attr_get_def)
qed

lemma sweep_midi_skips:
  "list_ex (\<lambda>c. clip_name c = get_clip_name midi_clip) clips \<Longrightarrow>
   sweep_midi float_of int_of (midi_clip # rest) clips = sweep_midi float_of int_of rest clips"
  by simp

text \<open>
  C6 at a failing input. The track has one clip element, reachable through the clip-slot
  list and through the fallback sweep. Its \<open>Name\<close> element has no \<open>Value\<close> attribute, so
  the collected clip is named \<open>MIDI Clip\<close> (the default of \<open>_parse_midi_clip\<close>) while the
  sweep compares with the empty string (the default of \<open>_get_clip_name\<close>): the sweep
  appends the clip again, and the track has two clips of the same name. With the \<open>Value\<close>
  attribute on the \<open>Name\<close> element the two names agree (\<open>named_clip_key\<close>) and the clip
  is collected once.
\<close>

theorem slot_clip_counted_twice:
  "desc_step ''MidiClip'' [slot_track written_clip] = [written_clip]
   \<and> get_clip_name written_clip = []
   \<and> parse_track_clips demo_float no_number (slot_track written_clip) =
       Inr [\<lparr>clip_name = ''MIDI Clip'', clip_start = 0, clip_duration = 4, clip_notes = [],
             clip_audio_path = [], clip_is_midi = True, clip_scene_index = Some 0\<rparr>,
            \<lparr>clip_name = ''MIDI Clip'', clip_start = 0, clip_duration = 4, clip_notes = [],
             clip_audio_path = [], clip_is_midi = True, clip_scene_index = None\<rparr>]
   \<and> parse_track_clips demo_float no_number (slot_track named_clip) =
       Inr [\<lparr>clip_name = ''Intro'', clip_start = 0, clip_duration = 4, clip_notes = [],
             clip_audio_path = [], clip_is_midi = True, clip_scene_index = Some 0\<rparr>]"
  by code_simp

theorem slot_clip_counted_twice_witness:
  "\<exists>clips. parse_track_clips demo_float no_number (slot_track written_clip) = Inr clips
     \<and> length (desc_step ''MidiClip'' [slot_track written_clip]) = 1
     \<and> length clips = 2
     \<and> clip_name (clips ! 0) = clip_name (clips ! 1)"
  using slot_clip_counted_twice by simp

end
